theory Spec2Isabelle
  imports Complex_Main "HOL-Library.Word"
begin

section \<open>Python values and errors\<close>

text \<open>
  Exceptions of the Python program are values: a computation returns
  \<open>py_error + 'a\<close>, with \<open>Inl\<close> for a raised exception.
\<close>

datatype py_error = TypeError string | ValueError string | AssertionError string

text \<open>
  Layer objects of the \<^verbatim>\<open>layers\<close> module. The module itself is not among the
  sources; \<^verbatim>\<open>perceiver.py\<close> names five classes and the keyword arguments it
  constructs them with. A layer object is its construction arguments together with its
  identity (Python object identity: the address the object was allocated at). Each
  object owns its learned parameters, so two objects at different addresses are two
  parameter sets and one object applied twice is one parameter set used twice.
\<close>

datatype layer_cfg =
    Latent int int
  | FourierPositionEmbedding int
  | CrossAttention int
  | SelfAttention int
  | ClassificationDecoder int

record layer_obj =
  addr :: nat
  cfg :: layer_cfg

section \<open>A computation that calls layers\<close>

text \<open>
  A forward pass calls layer objects one after the other. A computation returns the
  sequence of layer objects it has called, in call order, and its result or the
  exception that ended it.
\<close>

type_synonym 'a traced = "layer_obj list \<times> (py_error + 'a)"

definition return_t :: "'a \<Rightarrow> 'a traced" where
  "return_t a = ([], Inr a)"

definition bind_t :: "'a traced \<Rightarrow> ('a \<Rightarrow> 'b traced) \<Rightarrow> 'b traced" where
  "bind_t m f =
     (case m of
        (tr, Inl e) \<Rightarrow> (tr, Inl e)
      | (tr, Inr a) \<Rightarrow> (case f a of (tr', r) \<Rightarrow> (tr @ tr', r)))"

text \<open>
  \<^verbatim>\<open>layer(*args)\<close>: the call of one layer object. What a layer computes is the
  parameter \<open>lc\<close> (the \<^verbatim>\<open>layers\<close> module is not among the sources), a function of
  the object and its argument tensors that returns a tensor or raises.
\<close>

definition invoke :: "(layer_obj \<Rightarrow> 't list \<Rightarrow> py_error + 't) \<Rightarrow> layer_obj \<Rightarrow> 't list \<Rightarrow> 't traced" where
  "invoke lc ob args = ([ob], lc ob args)"

text \<open>
  \<^verbatim>\<open>functools.reduce(f, xs, init)\<close>: a left fold; an exception in \<open>f\<close> ends it.
\<close>

fun reduce_t :: "('a \<Rightarrow> 'b \<Rightarrow> 'a traced) \<Rightarrow> 'b list \<Rightarrow> 'a \<Rightarrow> 'a traced" where
  "reduce_t f [] a = return_t a"
| "reduce_t f (x # xs) a = bind_t (f a x) (reduce_t f xs)"

text \<open>\<^verbatim>\<open>range(n)\<close> for a Python int: empty when \<open>n \<le> 0\<close>.\<close>

definition range_py :: "int \<Rightarrow> int list" where
  "range_py n = map int [0..<nat n]"

section \<open>perceiver.py\<close>

record perceiver =
  num_blocks :: int
  latent :: layer_obj
  fourier_enc :: layer_obj
  cross_attention :: layer_obj
  self_attentions :: "layer_obj list"
  logits :: layer_obj

text \<open>
  Constructing a layer: the class's \<^verbatim>\<open>__init__\<close> may reject its arguments (the
  parameter \<open>ctor\<close>, \<open>Some e\<close> for the exception raised); otherwise a new object
  is allocated at the next free address \<open>n\<close>.
\<close>

definition new_layer :: "(layer_cfg \<Rightarrow> py_error option) \<Rightarrow> layer_cfg \<Rightarrow> nat \<Rightarrow> py_error + (layer_obj \<times> nat)" where
  "new_layer ctor c n =
     (case ctor c of
        Some e \<Rightarrow> Inl e
      | None \<Rightarrow> Inr (\<lparr>addr = n, cfg = c\<rparr>, Suc n))"

text \<open>
  The list comprehension \<^verbatim>\<open>[layers.SelfAttention(...) for _ in range(k)]\<close>: one
  constructor call for each element of the range.
\<close>

fun new_layers :: "(layer_cfg \<Rightarrow> py_error option) \<Rightarrow> layer_cfg \<Rightarrow> 'b list \<Rightarrow> nat \<Rightarrow> py_error + (layer_obj list \<times> nat)" where
  "new_layers ctor c [] n = Inr ([], n)"
| "new_layers ctor c (i # is) n =
     (case new_layer ctor c n of
        Inl e \<Rightarrow> Inl e
      | Inr (ob, n') \<Rightarrow>
          (case new_layers ctor c is n' of
             Inl e \<Rightarrow> Inl e
           | Inr (obs, n'') \<Rightarrow> Inr (ob # obs, n'')))"

text \<open>
  \<^verbatim>\<open>Perceiver.__init__\<close>. The arguments are, in the order of the source,
  \<open>num_blocks\<close>, \<open>num_self_attends_per_block\<close>, \<open>num_cross_heads\<close>,
  \<open>num_self_attend_heads\<close>, \<open>latent_dim\<close>, \<open>latent_channels\<close>,
  \<open>num_freq_bands\<close>, \<open>num_classes\<close>. \<open>n0\<close> is the next free address before the
  call; the result carries the next free address after it.
\<close>

definition Perceiver_init ::
  "(layer_cfg \<Rightarrow> py_error option) \<Rightarrow> nat \<Rightarrow> int \<Rightarrow> int \<Rightarrow> int \<Rightarrow> int \<Rightarrow> int \<Rightarrow> int \<Rightarrow> int \<Rightarrow> int
     \<Rightarrow> py_error + (perceiver \<times> nat)" where
  "Perceiver_init ctor n0 nblocks nself cross_heads self_heads ldim lchannels nbands nclasses =
     (case new_layer ctor (Latent ldim lchannels) n0 of
        Inl e \<Rightarrow> Inl e
      | Inr (lat, n1) \<Rightarrow>
     (case new_layer ctor (FourierPositionEmbedding nbands) n1 of
        Inl e \<Rightarrow> Inl e
      | Inr (fe, n2) \<Rightarrow>
     (case new_layer ctor (CrossAttention cross_heads) n2 of
        Inl e \<Rightarrow> Inl e
      | Inr (ca, n3) \<Rightarrow>
     (case new_layers ctor (SelfAttention self_heads) (range_py nself) n3 of
        Inl e \<Rightarrow> Inl e
      | Inr (sas, n4) \<Rightarrow>
     (case new_layer ctor (ClassificationDecoder nclasses) n4 of
        Inl e \<Rightarrow> Inl e
      | Inr (lg, n5) \<Rightarrow>
          Inr (\<lparr>num_blocks = nblocks, latent = lat, fourier_enc = fe,
                 cross_attention = ca, self_attentions = sas, logits = lg\<rparr>, n5))))))"

text \<open>
  The model \<^verbatim>\<open>Perceiver.__init__\<close> returns when no layer constructor raises:
  the layer objects at consecutive addresses from \<open>n0\<close>, in the order of
  construction.
\<close>

definition constructed ::
  "nat \<Rightarrow> int \<Rightarrow> int \<Rightarrow> int \<Rightarrow> int \<Rightarrow> int \<Rightarrow> int \<Rightarrow> int \<Rightarrow> int \<Rightarrow> perceiver" where
  "constructed n0 nblocks nself cross_heads self_heads ldim lchannels nbands nclasses =
     \<lparr>num_blocks = nblocks,
      latent = \<lparr>addr = n0, cfg = Latent ldim lchannels\<rparr>,
      fourier_enc = \<lparr>addr = n0 + 1, cfg = FourierPositionEmbedding nbands\<rparr>,
      cross_attention = \<lparr>addr = n0 + 2, cfg = CrossAttention cross_heads\<rparr>,
      self_attentions =
        map (\<lambda>i. \<lparr>addr = n0 + 3 + i, cfg = SelfAttention self_heads\<rparr>) [0..<nat nself],
      logits = \<lparr>addr = n0 + 3 + nat nself, cfg = ClassificationDecoder nclasses\<rparr>\<rparr>"

text \<open>
  The inner function \<^verbatim>\<open>attn_block(z, *args)\<close> of \<^verbatim>\<open>Perceiver.call\<close>: the
  cross-attention of \<open>z\<close> against the encoded input, then the left fold of the
  self-attention layers over the result. Its second argument (the element of the
  range) is ignored.
\<close>

definition attn_block ::
  "(layer_obj \<Rightarrow> 't list \<Rightarrow> py_error + 't) \<Rightarrow> perceiver \<Rightarrow> 't \<Rightarrow> 't \<Rightarrow> int \<Rightarrow> 't traced" where
  "attn_block lc self inputs_enc z i =
     bind_t (invoke lc (cross_attention self) [z, inputs_enc])
       (reduce_t (\<lambda>z attend. invoke lc attend [z]) (self_attentions self))"

text \<open>\<^verbatim>\<open>Perceiver.call\<close>.\<close>

definition call ::
  "(layer_obj \<Rightarrow> 't list \<Rightarrow> py_error + 't) \<Rightarrow> perceiver \<Rightarrow> 't \<Rightarrow> 't traced" where
  "call lc self inputs =
     bind_t (invoke lc (latent self) [inputs]) (\<lambda>latent_array.
     bind_t (invoke lc (fourier_enc self) [inputs]) (\<lambda>inputs_enc.
     bind_t (reduce_t (attn_block lc self inputs_enc) (range_py (num_blocks self)) latent_array) (\<lambda>z.
     invoke lc (logits self) [z])))"

text \<open>
  What the forward pass returns, without the sequence of calls: the same steps on
  \<open>py_error + 'a\<close>.
\<close>

definition bind_res :: "py_error + 'a \<Rightarrow> ('a \<Rightarrow> py_error + 'b) \<Rightarrow> py_error + 'b" where
  "bind_res m f = (case m of Inl e \<Rightarrow> Inl e | Inr a \<Rightarrow> f a)"

fun reduce_res :: "('a \<Rightarrow> 'b \<Rightarrow> py_error + 'a) \<Rightarrow> 'b list \<Rightarrow> 'a \<Rightarrow> py_error + 'a" where
  "reduce_res f [] a = Inr a"
| "reduce_res f (x # xs) a = bind_res (f a x) (reduce_res f xs)"

text \<open>What one outer iteration returns: \<^verbatim>\<open>attn_block\<close> without the sequence of calls.\<close>

definition block_res ::
  "(layer_obj \<Rightarrow> 't list \<Rightarrow> py_error + 't) \<Rightarrow> perceiver \<Rightarrow> 't \<Rightarrow> 't \<Rightarrow> py_error + 't" where
  "block_res lc self enc z =
     bind_res (lc (cross_attention self) [z, enc])
       (reduce_res (\<lambda>z a. lc a [z]) (self_attentions self))"

text \<open>
  The attention layers of a model, and the number of learned attention parameters it
  holds: Keras counts the weights of each distinct layer object once. How many
  parameters one layer object holds is the parameter \<open>psize\<close>, a function of the
  object's class and construction arguments.
\<close>

definition attention_layers :: "perceiver \<Rightarrow> layer_obj list" where
  "attention_layers self = cross_attention self # self_attentions self"

definition attention_param_count :: "(layer_cfg \<Rightarrow> nat) \<Rightarrow> perceiver \<Rightarrow> nat" where
  "attention_param_count psize self =
     sum_list (map (\<lambda>ob. psize (cfg ob)) (remdups (attention_layers self)))"

section \<open>The forward pass as the specification words it\<close>

text \<open>
  ``for b in 1..B: latent = self_attend(... self_attend(cross_attend(latent,
  encoded_input)) ...)'': \<open>iterate_t n step\<close> runs \<open>step\<close> \<open>n\<close> times, and
  \<open>self_attend_all\<close> applies the self-attention layers once each, first to last.
\<close>

fun iterate_t :: "nat \<Rightarrow> ('a \<Rightarrow> 'a traced) \<Rightarrow> 'a \<Rightarrow> 'a traced" where
  "iterate_t 0 step a = return_t a"
| "iterate_t (Suc n) step a = bind_t (step a) (iterate_t n step)"

fun self_attend_all ::
  "(layer_obj \<Rightarrow> 't list \<Rightarrow> py_error + 't) \<Rightarrow> layer_obj list \<Rightarrow> 't \<Rightarrow> 't traced" where
  "self_attend_all lc [] z = return_t z"
| "self_attend_all lc (a # as) z = bind_t (invoke lc a [z]) (self_attend_all lc as)"

definition spec_forward ::
  "(layer_obj \<Rightarrow> 't list \<Rightarrow> py_error + 't) \<Rightarrow> perceiver \<Rightarrow> 't \<Rightarrow> 't traced" where
  "spec_forward lc self inputs =
     bind_t (invoke lc (latent self) [inputs]) (\<lambda>z0.
     bind_t (invoke lc (fourier_enc self) [inputs]) (\<lambda>enc.
     bind_t (iterate_t (nat (num_blocks self))
               (\<lambda>z. bind_t (invoke lc (cross_attention self) [z, enc])
                       (self_attend_all lc (self_attentions self))) z0) (\<lambda>z.
     invoke lc (logits self) [z])))"

text \<open>The sequence of layer calls of a forward pass that raises nowhere.\<close>

definition forward_calls :: "perceiver \<Rightarrow> layer_obj list" where
  "forward_calls self =
     [latent self, fourier_enc self]
     @ concat (replicate (nat (num_blocks self)) (cross_attention self # self_attentions self))
     @ [logits self]"

section \<open>preprocessing.py\<close>

text \<open>
  The argument \<^verbatim>\<open>image\<close> of \<^verbatim>\<open>hflip\<close> is a tensor; the function asserts that its
  shape has length 3. \<open>Rank3\<close> is a tensor of shape (height, width, channels), the
  list of its rows, each the list of its pixels, each the list of its channel values;
  \<open>NotRank3\<close> stands for a tensor of any other rank.
\<close>

datatype 'a tensor = Rank3 "'a list list list" | NotRank3

text \<open>
  A tensor of rank 3 one of whose dimensions is zero: no rows (height 0), a row of no
  pixels (width 0) or a pixel of no values (no channels).
\<close>

definition zero_sized :: "'a list list list \<Rightarrow> bool" where
  "zero_sized px \<longleftrightarrow> px = [] \<or> list_ex (\<lambda>row. row = [] \<or> list_ex (\<lambda>p. p = []) row) px"

text \<open>
  \<^verbatim>\<open>tf.image.flip_left_right\<close> on a tensor of rank 3: a ValueError when one of the
  three dimensions is zero; otherwise the tensor with its width axis reversed.
\<close>

definition flip_left_right :: "'a list list list \<Rightarrow> py_error + 'a list list list" where
  "flip_left_right img =
     (if zero_sized img then Inl (ValueError ''inner 3 dims of image.shape must be > 0'')
      else Inr (map rev img))"

text \<open>
  \<^verbatim>\<open>hflip\<close>. The label is a tensor as well, the list of its entries: one entry for
  a class index (an int64, \<open>64 word\<close>, as the dataset yields it), one entry for
  each class for a one-hot label (in \<^verbatim>\<open>preprocess\<close>, \<^verbatim>\<open>hflip\<close> is mapped after
  \<^verbatim>\<open>one_hot\<close>, whose labels are float32). \<^verbatim>\<open>1 - label\<close> subtracts every entry
  from 1, in the arithmetic of the entries' type \<open>'l\<close>. The image is flipped first:
  an exception there ends the call.
\<close>

definition hflip :: "'a tensor \<Rightarrow> 'l::{one,minus} list \<Rightarrow> py_error + ('a tensor \<times> 'l list)" where
  "hflip img label =
     (case img of
        NotRank3 \<Rightarrow> Inl (AssertionError ''len(image.shape) == 3'')
      | Rank3 px \<Rightarrow>
          (case flip_left_right px of
             Inl e \<Rightarrow> Inl e
           | Inr flipped \<Rightarrow> Inr (Rank3 flipped, map (\<lambda>x. 1 - x) label)))"

text \<open>
  Values passed between \<^verbatim>\<open>run_experiment\<close> and \<^verbatim>\<open>preprocess\<close>. A dataset is
  opaque here (\<open>PyDataset\<close> with a handle).
\<close>

datatype py_value = PyNone | PyInt int | PyBool bool | PyTuple "py_value list" | PyDataset nat

text \<open>
  The parameters of \<^verbatim>\<open>def preprocess(...)\<close>, in order, each with its default
  value if it has one. The function has neither \<^verbatim>\<open>*args\<close> nor \<^verbatim>\<open>**kwargs\<close>.
\<close>

definition preprocess_params :: "(string \<times> py_value option) list" where
  "preprocess_params =
     [(''train'', None), (''validation'', None), (''test'', None),
      (''num_classes'', Some (PyInt 2)), (''image_dims'', Some PyNone),
      (''hflip_concat'', Some (PyBool True)),
      (''train_batch_size'', Some (PyInt 64)), (''eval_batch_size'', Some (PyInt 16))]"

text \<open>
  How Python binds the arguments of a call to the parameters of a function without
  \<^verbatim>\<open>*args\<close> and \<^verbatim>\<open>**kwargs\<close>: positional arguments first, then each keyword
  argument (a name that is no parameter, or one already bound, is a TypeError), then
  the check for too many positional arguments, then the defaults (a parameter left
  without value is a TypeError). The body runs only when the binding succeeded.
\<close>

fun bind_keywords ::
  "string list \<Rightarrow> (string \<times> py_value) list \<Rightarrow> (string \<times> py_value) list
     \<Rightarrow> py_error + (string \<times> py_value) list" where
  "bind_keywords names env [] = Inr env"
| "bind_keywords names env ((k, v) # kws) =
     (if k \<notin> set names then Inl (TypeError (''got an unexpected keyword argument '' @ k))
      else if map_of env k \<noteq> None then Inl (TypeError (''got multiple values for argument '' @ k))
      else bind_keywords names (env @ [(k, v)]) kws)"

fun bind_defaults ::
  "(string \<times> py_value option) list \<Rightarrow> (string \<times> py_value) list
     \<Rightarrow> py_error + (string \<times> py_value) list" where
  "bind_defaults [] env = Inr []"
| "bind_defaults ((p, d) # ps) env =
     (case (case map_of env p of Some v \<Rightarrow> Some v | None \<Rightarrow> d) of
        None \<Rightarrow> Inl (TypeError (''missing required positional argument '' @ p))
      | Some v \<Rightarrow>
          (case bind_defaults ps env of
             Inl e \<Rightarrow> Inl e
           | Inr rest \<Rightarrow> Inr ((p, v) # rest)))"

definition bind_args ::
  "(string \<times> py_value option) list \<Rightarrow> py_value list \<Rightarrow> (string \<times> py_value) list
     \<Rightarrow> py_error + (string \<times> py_value) list" where
  "bind_args params pos kws =
     (case bind_keywords (map fst params) (zip (map fst params) pos) kws of
        Inl e \<Rightarrow> Inl e
      | Inr env \<Rightarrow>
          if length params < length pos
          then Inl (TypeError ''too many positional arguments'')
          else bind_defaults params env)"

text \<open>
  A call of \<^verbatim>\<open>preprocess\<close>. Its body builds \<^verbatim>\<open>tf.data\<close> pipelines (map,
  concatenate, cache, shuffle, batch, prefetch); it is the parameter \<open>body\<close>, a
  function of the bound arguments.
\<close>

definition preprocess ::
  "((string \<times> py_value) list \<Rightarrow> py_error + py_value list)
     \<Rightarrow> py_value list \<Rightarrow> (string \<times> py_value) list \<Rightarrow> py_error + py_value list" where
  "preprocess body pos kws =
     (case bind_args preprocess_params pos kws of
        Inl e \<Rightarrow> Inl e
      | Inr env \<Rightarrow> body env)"

section \<open>experiment.py\<close>

text \<open>The options \<^verbatim>\<open>run_experiment\<close> reads, as \<^verbatim>\<open>get_opts\<close> parses them.\<close>

record opts =
  epochs :: int
  batch_size :: int
  out_dir :: string
  data_dir :: string
  image_dims :: py_value
  opt_num_blocks :: int
  num_self_attends_per_block :: int
  num_cross_heads :: int
  num_self_attend_heads :: int
  latent_dim :: int
  latent_channels :: int
  num_freq_bands :: int
  learning_rate :: real
  weight_decay_rate :: real

text \<open>
  \<^verbatim>\<open>run_experiment\<close>. The dataset library is the parameter \<open>tfds_load\<close>: called
  with \<^verbatim>\<open>opts.data_dir\<close>, it raises or returns the list of splits and the number
  of classes read from the dataset info. The steps after the model's construction
  (compile, fit, save, evaluate, write the result) are the parameter \<open>train_eval\<close>.
  The result is what the function returns or raises, and the model it constructed on
  the way, if it constructed one.
\<close>

definition run_experiment ::
  "(string \<Rightarrow> py_error + (py_value list \<times> int))
     \<Rightarrow> ((string \<times> py_value) list \<Rightarrow> py_error + py_value list)
     \<Rightarrow> (perceiver \<Rightarrow> py_value \<Rightarrow> py_value \<Rightarrow> py_value \<Rightarrow> opts \<Rightarrow> py_error + 'r)
     \<Rightarrow> (layer_cfg \<Rightarrow> py_error option) \<Rightarrow> nat \<Rightarrow> opts
     \<Rightarrow> (py_error + 'r) \<times> perceiver option" where
  "run_experiment tfds_load body train_eval ctor n0 opts =
     (case tfds_load (data_dir opts) of
        Inl e \<Rightarrow> (Inl e, None)
      | Inr (splits, num_classes) \<Rightarrow>
     (case preprocess body splits
             [(''batch_size'', PyInt (batch_size opts)),
              (''num_classes'', PyInt num_classes),
              (''image_dims'', image_dims opts)] of
        Inl e \<Rightarrow> (Inl e, None)
      | Inr [train, validation, test] \<Rightarrow>
          (case Perceiver_init ctor n0 (opt_num_blocks opts) (num_self_attends_per_block opts)
                  (num_cross_heads opts) (num_self_attend_heads opts) (latent_dim opts)
                  (latent_channels opts) (num_freq_bands opts) num_classes of
             Inl e \<Rightarrow> (Inl e, None)
           | Inr (perceiver, n1) \<Rightarrow>
               (train_eval perceiver train validation test opts, Some perceiver))
      | Inr _ \<Rightarrow> (Inl (ValueError ''not enough or too many values to unpack''), None)))"

section \<open>The layers module, from the specification\<close>

text \<open>
  Modelled from the spec: the constructors of the layer classes of the missing
  \<^verbatim>\<open>layers\<close> module. The specification's error handling design says of a
  degenerate configuration: ``zero heads, zero latent_dim, or zero classes --- rejected
  at construction time''. Each class rejects the zero it is given; nothing else is
  said to be rejected.
\<close>

definition construct_spec :: "layer_cfg \<Rightarrow> py_error option" where
  "construct_spec c =
     (case c of
        Latent d ch \<Rightarrow> if d = 0 then Some (ValueError ''latent_dim'') else None
      | FourierPositionEmbedding k \<Rightarrow> None
      | CrossAttention h \<Rightarrow> if h = 0 then Some (ValueError ''num_heads'') else None
      | SelfAttention h \<Rightarrow> if h = 0 then Some (ValueError ''num_heads'') else None
      | ClassificationDecoder n \<Rightarrow> if n = 0 then Some (ValueError ''num_classes'') else None)"

text \<open>
  Arrays of the specification are over the real numbers here: a rank-1 array is the
  list of its entries, a rank-2 array the list of its rows. Floating-point rounding,
  infinities and NaN are not modelled.
\<close>

type_synonym vec = "real list"
type_synonym mat = "real list list"

definition is_mat :: "nat \<Rightarrow> nat \<Rightarrow> mat \<Rightarrow> bool" where
  "is_mat n d M \<longleftrightarrow> length M = n \<and> list_all (\<lambda>r. length r = d) M"

definition vadd :: "vec \<Rightarrow> vec \<Rightarrow> vec" where
  "vadd a b = map2 (+) a b"

definition dot :: "vec \<Rightarrow> vec \<Rightarrow> real" where
  "dot a b = sum_list (map2 (*) a b)"

text \<open>
  \<open>vec_mat d v W\<close>: the row vector \<open>v\<close> times the matrix \<open>W\<close> of \<open>d\<close>
  columns, the sum of the rows of \<open>W\<close> scaled by the entries of \<open>v\<close>.
\<close>

fun vec_mat :: "nat \<Rightarrow> vec \<Rightarrow> mat \<Rightarrow> vec" where
  "vec_mat d (x # xs) (w # ws) = vadd (map ((*) x) w) (vec_mat d xs ws)"
| "vec_mat d xs ws = replicate d 0"

text \<open>
  Modelled from the spec: the Fourier positional encoder of the missing \<^verbatim>\<open>layers\<close>
  module (specification, component design 4.1). A position along an axis of resolution
  \<open>n\<close> is normalised to \<open>[-1, 1]\<close>; the \<open>K\<close> frequencies are spaced
  log-linearly between 1 and the Nyquist rate \<open>n / 2\<close>; each frequency gives a
  sine and a cosine; the features of the two axes are concatenated to the raw channel
  values of the position, and the positions are flattened row by row.
\<close>

definition axis_pos :: "nat \<Rightarrow> nat \<Rightarrow> real" where
  "axis_pos n i = (if n \<le> 1 then - 1 else - 1 + 2 * real i / real (n - 1))"

definition band_freq :: "nat \<Rightarrow> nat \<Rightarrow> nat \<Rightarrow> real" where
  "band_freq n K k = (if K \<le> 1 then 1 else (real n / 2) powr (real k / real (K - 1)))"

definition axis_features :: "nat \<Rightarrow> nat \<Rightarrow> nat \<Rightarrow> vec" where
  "axis_features K n i =
     concat (map (\<lambda>k. [sin (2 * pi * band_freq n K k * axis_pos n i),
                        cos (2 * pi * band_freq n K k * axis_pos n i)]) [0..<K])"

text \<open>
  Modelled from the spec: the output of the encoder for one image, one row for each
  position: the raw channel values, then the features of the row index, then the
  features of the column index.
\<close>

definition fourier_encode :: "nat \<Rightarrow> real list list list \<Rightarrow> mat" where
  "fourier_encode K img =
     concat (map (\<lambda>(i, row).
               map (\<lambda>(j, px). px @ axis_features K (length img) i @ axis_features K (length row) j)
                 (enumerate 0 row))
             (enumerate 0 img))"

text \<open>
  Modelled from the spec: the attention primitive of the missing \<^verbatim>\<open>layers\<close>
  module (specification, component design 4.3). Its learned parameters are one query,
  one key and one value projection for each head and one output projection. For each
  row of the query source: project it, score it against every projected key row
  (dot product divided by the square root of the head dimension), take the softmax
  of the scores (computed after subtracting their maximum), sum the projected value
  rows with these weights; concatenate the heads, project back to the channel
  dimension of the query source, add the row itself (the residual connection). The key
  count must be at least 1; a query source of no rows gives an array of no rows.
\<close>

record attn_params =
  head_dim :: nat
  w_query :: "mat list"
  w_key :: "mat list"
  w_value :: "mat list"
  w_out :: mat

fun softmax :: "vec \<Rightarrow> vec" where
  "softmax [] = []"
| "softmax (s # ss) =
     (let m = fold max ss s;
          e = map (\<lambda>x. exp (x - m)) (s # ss)
      in map (\<lambda>x. x / sum_list e) e)"

definition head_out :: "nat \<Rightarrow> mat \<times> mat \<times> mat \<Rightarrow> vec \<Rightarrow> mat \<Rightarrow> vec" where
  "head_out dh W qr kv =
     (case W of (wq, wk, wv) \<Rightarrow>
        vec_mat dh
          (softmax (map (\<lambda>kr. dot (vec_mat dh qr wq) (vec_mat dh kr wk) / sqrt (real dh)) kv))
          (map (\<lambda>kr. vec_mat dh kr wv) kv))"

definition attn_shapes_ok :: "attn_params \<Rightarrow> nat \<Rightarrow> nat \<Rightarrow> bool" where
  "attn_shapes_ok P D C \<longleftrightarrow>
     length (w_key P) = length (w_query P) \<and> length (w_value P) = length (w_query P)
     \<and> list_all (is_mat D (head_dim P)) (w_query P)
     \<and> list_all (is_mat C (head_dim P)) (w_key P)
     \<and> list_all (is_mat C (head_dim P)) (w_value P)
     \<and> is_mat (length (w_query P) * head_dim P) D (w_out P)"

text \<open>
  Modelled from the spec: the attention primitive on a query source \<open>q\<close> and a
  key/value source \<open>kv\<close>. Arrays and projections whose shapes do not fit are a
  shape error.
\<close>

definition attention :: "attn_params \<Rightarrow> mat \<Rightarrow> mat \<Rightarrow> py_error + mat" where
  "attention P q kv =
     (case kv of
        [] \<Rightarrow> Inl (ValueError ''key count must be at least 1'')
      | kr0 # _ \<Rightarrow>
     (case q of
        [] \<Rightarrow> Inr []
      | qr0 # _ \<Rightarrow>
          if is_mat (length q) (length qr0) q \<and> is_mat (length kv) (length kr0) kv
             \<and> attn_shapes_ok P (length qr0) (length kr0)
          then Inr (map (\<lambda>qr.
                     vadd (vec_mat (length qr0)
                             (concat (map (\<lambda>W. head_out (head_dim P) W qr kv)
                                        (zip (w_query P) (zip (w_key P) (w_value P)))))
                             (w_out P))
                          qr) q)
          else Inl (ValueError ''shape mismatch'')))"

definition all_zero :: "attn_params \<Rightarrow> bool" where
  "all_zero P \<longleftrightarrow>
     list_all (list_all (list_all (\<lambda>x. x = 0))) (w_query P)
     \<and> list_all (list_all (list_all (\<lambda>x. x = 0))) (w_key P)
     \<and> list_all (list_all (list_all (\<lambda>x. x = 0))) (w_value P)
     \<and> list_all (list_all (\<lambda>x. x = 0)) (w_out P)"

text \<open>
  Modelled from the spec: the classification decoder of the missing \<^verbatim>\<open>layers\<close>
  module (specification, component design 4.4): the mean of the latent array over
  its rows, then one linear projection to the number of classes.
\<close>

definition mean_rows :: "nat \<Rightarrow> mat \<Rightarrow> vec" where
  "mean_rows d z = map (\<lambda>s. s / real (length z)) (foldr vadd z (replicate d 0))"

text \<open>
  Modelled from the spec: the decoder on one latent array, with the projection \<open>W\<close>
  to \<open>n\<close> classes.
\<close>

definition decode :: "nat \<Rightarrow> mat \<Rightarrow> mat \<Rightarrow> py_error + vec" where
  "decode n W z =
     (case z of
        [] \<Rightarrow> Inl (ValueError ''empty latent array'')
      | r0 # _ \<Rightarrow>
          if is_mat (length z) (length r0) z \<and> is_mat (length r0) n W
          then Inr (vec_mat n (mean_rows (length r0) z) W)
          else Inl (ValueError ''shape mismatch''))"

text \<open>
  Modelled from the spec: what a call of each layer class computes on one sample.
  The learned parameters of a layer object are looked up at the object's address.
  The latent layer returns its learned array whatever the input (specification 4.2);
  cross-attention is the attention primitive with the latent array as query source and
  the encoded input as key/value source, self-attention the primitive with the
  latent array as both.
\<close>

record weights =
  latent_w :: "nat \<Rightarrow> mat"
  attn_w :: "nat \<Rightarrow> attn_params"
  decoder_w :: "nat \<Rightarrow> mat"

datatype sample = Image "real list list list" | Array mat | Vector vec

text \<open>
  Modelled from the spec: the call of a layer object on the arguments of one sample.
\<close>

definition sample_call :: "weights \<Rightarrow> layer_obj \<Rightarrow> sample list \<Rightarrow> py_error + sample" where
  "sample_call W ob args =
     (case cfg ob of
        Latent d c \<Rightarrow>
          (case args of
             [Image x] \<Rightarrow>
               if is_mat (nat d) (nat c) (latent_w W (addr ob))
               then Inr (Array (latent_w W (addr ob)))
               else Inl (ValueError ''latent array shape'')
           | _ \<Rightarrow> Inl (TypeError ''layer called with unexpected arguments''))
      | FourierPositionEmbedding k \<Rightarrow>
          (case args of
             [Image x] \<Rightarrow> Inr (Array (fourier_encode (nat k) x))
           | _ \<Rightarrow> Inl (TypeError ''layer called with unexpected arguments''))
      | CrossAttention h \<Rightarrow>
          (case args of
             [Array z, Array e] \<Rightarrow>
               if length (w_query (attn_w W (addr ob))) = nat h
               then map_sum id Array (attention (attn_w W (addr ob)) z e)
               else Inl (ValueError ''number of heads'')
           | _ \<Rightarrow> Inl (TypeError ''layer called with unexpected arguments''))
      | SelfAttention h \<Rightarrow>
          (case args of
             [Array z] \<Rightarrow>
               if length (w_query (attn_w W (addr ob))) = nat h
               then map_sum id Array (attention (attn_w W (addr ob)) z z)
               else Inl (ValueError ''number of heads'')
           | _ \<Rightarrow> Inl (TypeError ''layer called with unexpected arguments''))
      | ClassificationDecoder n \<Rightarrow>
          (case args of
             [Array z] \<Rightarrow> map_sum id Vector (decode (nat n) (decoder_w W (addr ob)) z)
           | _ \<Rightarrow> Inl (TypeError ''layer called with unexpected arguments'')))"

text \<open>
  Modelled from the spec: the call of a layer object on a batch, missing with the
  \<^verbatim>\<open>layers\<close> module. A batch is the list of its samples. A layer applied to a batch applies to each
  sample on its own (specification, resource model: ``no cross-sample interaction is
  permitted anywhere in the architecture''); the first sample that raises ends the call.
\<close>

fun mapM_res :: "('a \<Rightarrow> py_error + 'b) \<Rightarrow> 'a list \<Rightarrow> py_error + 'b list" where
  "mapM_res f [] = Inr []"
| "mapM_res f (x # xs) =
     (case f x of
        Inl e \<Rightarrow> Inl e
      | Inr y \<Rightarrow> (case mapM_res f xs of Inl e \<Rightarrow> Inl e | Inr ys \<Rightarrow> Inr (y # ys)))"

fun batched :: "(layer_obj \<Rightarrow> 's list \<Rightarrow> py_error + 's) \<Rightarrow> layer_obj \<Rightarrow> 's list list \<Rightarrow> py_error + 's list" where
  "batched f ob [xs] = mapM_res (\<lambda>x. f ob [x]) xs"
| "batched f ob [zs, es] =
     (if length zs = length es then mapM_res (\<lambda>(z, e). f ob [z, e]) (zip zs es)
      else Inl (ValueError ''batch sizes differ''))"
| "batched f ob args = Inl (TypeError ''layer called with unexpected arguments'')"

definition layer_call_spec :: "weights \<Rightarrow> layer_obj \<Rightarrow> sample list list \<Rightarrow> py_error + sample list" where
  "layer_call_spec W = batched (sample_call W)"

text \<open>
  A well-formed image of \<open>h\<close> rows, \<open>w\<close> columns and \<open>c\<close> channels, and
  learned parameters whose shapes are those the model's configuration and the channel
  count of the encoded input ask for: a latent array of \<open>latent_dim\<close> rows (at
  least one) and \<open>latent_channels\<close> columns, the configured number of heads in every
  attention layer, and projections that fit the arrays they are applied to.
\<close>

definition is_image :: "nat \<Rightarrow> nat \<Rightarrow> nat \<Rightarrow> real list list list \<Rightarrow> bool" where
  "is_image h w c img \<longleftrightarrow>
     length img = h \<and> list_all (\<lambda>row. length row = w \<and> list_all (\<lambda>px. length px = c) row) img"

definition weights_fit ::
  "weights \<Rightarrow> perceiver \<Rightarrow> int \<Rightarrow> int \<Rightarrow> int \<Rightarrow> int \<Rightarrow> int \<Rightarrow> nat \<Rightarrow> bool" where
  "weights_fit W self ldim lchannels cross_heads self_heads nclasses enc_channels \<longleftrightarrow>
     0 < ldim
     \<and> is_mat (nat ldim) (nat lchannels) (latent_w W (addr (latent self)))
     \<and> length (w_query (attn_w W (addr (cross_attention self)))) = nat cross_heads
     \<and> attn_shapes_ok (attn_w W (addr (cross_attention self))) (nat lchannels) enc_channels
     \<and> list_all (\<lambda>ob. length (w_query (attn_w W (addr ob))) = nat self_heads
                      \<and> attn_shapes_ok (attn_w W (addr ob)) (nat lchannels) (nat lchannels))
          (self_attentions self)
     \<and> is_mat (nat lchannels) (nat nclasses) (decoder_w W (addr (logits self)))"

section \<open>A small model\<close>

text \<open>
  One attention head of dimension 1 on arrays of one channel, a latent array of one
  row, two classes, no frequency bands; two outer iterations of one cross-attention
  and one self-attention. The layer objects are those \<open>Perceiver_init\<close> allocates
  from address 0.
\<close>

definition example_attn :: attn_params where
  "example_attn =
     \<lparr>head_dim = 1, w_query = [[[1]]], w_key = [[[1]]], w_value = [[[2]]], w_out = [[1]]\<rparr>"

definition example_weights :: weights where
  "example_weights =
     \<lparr>latent_w = (\<lambda>a. [[1]]), attn_w = (\<lambda>a. example_attn), decoder_w = (\<lambda>a. [[1, 2]])\<rparr>"

definition example_model :: perceiver where
  "example_model =
     \<lparr>num_blocks = 2,
      latent = \<lparr>addr = 0, cfg = Latent 1 1\<rparr>,
      fourier_enc = \<lparr>addr = 1, cfg = FourierPositionEmbedding 0\<rparr>,
      cross_attention = \<lparr>addr = 2, cfg = CrossAttention 1\<rparr>,
      self_attentions = [\<lparr>addr = 3, cfg = SelfAttention 1\<rparr>],
      logits = \<lparr>addr = 4, cfg = ClassificationDecoder 2\<rparr>\<rparr>"

definition example_model0 :: perceiver where
  "example_model0 = example_model\<lparr>num_blocks := 0\<rparr>"

text \<open>
  The options \<^verbatim>\<open>get_opts\<close> returns when the command line gives none, and a
  dataset library that finds the dataset in the default data directory only: there it
  returns three splits of a dataset of two classes, elsewhere it raises (the library's
  DatasetNotFoundError is a ValueError).
\<close>

definition example_opts :: opts where
  "example_opts =
     \<lparr>epochs = 100, batch_size = 64, out_dir = ''./training'',
      data_dir = ''~/tensorflow_datasets'', image_dims = PyNone,
      opt_num_blocks = 8, num_self_attends_per_block = 6, num_cross_heads = 1,
      num_self_attend_heads = 8, latent_dim = 512, latent_channels = 1024,
      num_freq_bands = 64, learning_rate = 4 / 1000, weight_decay_rate = 1 / 10\<rparr>"

definition example_load :: "string \<Rightarrow> py_error + (py_value list \<times> int)" where
  "example_load dir =
     (if dir = ''~/tensorflow_datasets'' then Inr ([PyDataset 0, PyDataset 1, PyDataset 2], 2)
      else Inl (ValueError ''DatasetNotFoundError''))"

text \<open>Attention parameters that are all zero: one head of dimension 1 on one channel.\<close>

definition zero_attn :: attn_params where
  "zero_attn =
     \<lparr>head_dim = 1, w_query = [[[0]]], w_key = [[[0]]], w_value = [[[0]]], w_out = [[0]]\<rparr>"

section \<open>Proofs\<close>

subsection \<open>Computations that call layers\<close>

lemma bind_t_return [simp]: "bind_t (return_t a) f = f a"
  by (simp add: bind_t_def return_t_def split: prod.splits)

lemma snd_bind_t: "snd (bind_t m f) = bind_res (snd m) (\<lambda>a. snd (f a))"
  by (auto simp: bind_t_def bind_res_def split: prod.splits sum.splits)

lemma fst_bind_t:
  "fst (bind_t m f) = fst m @ (case snd m of Inl e \<Rightarrow> [] | Inr a \<Rightarrow> fst (f a))"
  by (auto simp: bind_t_def split: prod.splits sum.splits)

lemma bind_res_Inr_iff: "bind_res m f = Inr y \<longleftrightarrow> (\<exists>a. m = Inr a \<and> f a = Inr y)"
  by (cases m) (simp_all add: bind_res_def)

lemma reduce_eq_self_attend_all:
  "reduce_t (\<lambda>z attend. invoke lc attend [z]) as = self_attend_all lc as"
proof (induction as)
  case Nil show ?case by (rule ext) simp
next
  case (Cons a as) show ?case by (rule ext) (simp add: Cons.IH)
qed

lemma reduce_const_eq_iterate:
  "reduce_t (\<lambda>z i. step z) xs = iterate_t (length xs) step"
proof (induction xs)
  case Nil show ?case by (rule ext) simp
next
  case (Cons a as) show ?case by (rule ext) (simp add: Cons.IH)
qed

lemma length_range_py [simp]: "length (range_py n) = nat n"
  by (simp add: range_py_def)

lemma range_py_Nil_iff [simp]: "range_py n = [] \<longleftrightarrow> n \<le> 0"
  by (simp add: range_py_def)

lemma call_refines_spec_forward: "call lc self inputs = spec_forward lc self inputs"
proof -
  have blk: "attn_block lc self enc =
      (\<lambda>z i. bind_t (invoke lc (cross_attention self) [z, enc])
                (self_attend_all lc (self_attentions self)))" for enc
    by (intro ext) (simp add: attn_block_def reduce_eq_self_attend_all)
  show ?thesis
    unfolding call_def spec_forward_def blk reduce_const_eq_iterate by simp
qed

subsection \<open>The calls a forward pass makes\<close>

lemma fst_invoke [simp]: "fst (invoke lc ob args) = [ob]" by (simp add: invoke_def)
lemma snd_invoke [simp]: "snd (invoke lc ob args) = lc ob args" by (simp add: invoke_def)

lemma self_attend_all_trace:
  "snd (self_attend_all lc as z) = Inr y \<Longrightarrow> fst (self_attend_all lc as z) = as"
proof (induction as arbitrary: z)
  case Nil then show ?case by (simp add: return_t_def)
next
  case (Cons a as)
  then show ?case
    by (auto simp: fst_bind_t snd_bind_t bind_res_Inr_iff)
qed

lemma iterate_t_trace:
  assumes "\<And>z y. snd (step z) = Inr y \<Longrightarrow> fst (step z) = tr"
  shows "snd (iterate_t n step a) = Inr y \<Longrightarrow> fst (iterate_t n step a) = concat (replicate n tr)"
proof (induction n arbitrary: a)
  case 0 then show ?case by (simp add: return_t_def)
next
  case (Suc n)
  then show ?case using assms
    by (auto simp: fst_bind_t snd_bind_t bind_res_Inr_iff)
qed

lemma spec_forward_trace:
  assumes "snd (spec_forward lc self x) = Inr y"
  shows "fst (spec_forward lc self x) = forward_calls self"
proof -
  let ?step = "\<lambda>enc z. bind_t (invoke lc (cross_attention self) [z, enc])
                       (self_attend_all lc (self_attentions self))"
  have step: "fst (?step enc z) = cross_attention self # self_attentions self"
    if "snd (?step enc z) = Inr y'" for enc z y'
    using that
    by (auto simp: fst_bind_t snd_bind_t bind_res_Inr_iff self_attend_all_trace)
  from assms obtain z0 enc z where
    z0: "lc (latent self) [x] = Inr z0" and enc: "lc (fourier_enc self) [x] = Inr enc"
    and z: "snd (iterate_t (nat (num_blocks self)) (?step enc) z0) = Inr z"
    and y: "lc (logits self) [z] = Inr y"
    unfolding spec_forward_def by (auto simp: snd_bind_t bind_res_Inr_iff)
  have it: "fst (iterate_t (nat (num_blocks self)) (?step enc) z0)
      = concat (replicate (nat (num_blocks self)) (cross_attention self # self_attentions self))"
    using iterate_t_trace [where step = "?step enc", OF step z] by simp
  show ?thesis
    unfolding spec_forward_def forward_calls_def
    by (simp add: fst_bind_t z0 enc z it)
qed


subsection \<open>What a forward pass returns\<close>

lemma snd_return_t [simp]: "snd (return_t a) = Inr a" by (simp add: return_t_def)

lemma snd_reduce_t: "snd (reduce_t f xs a) = reduce_res (\<lambda>a x. snd (f a x)) xs a"
  by (induction xs arbitrary: a) (simp_all add: snd_bind_t)

lemma snd_attn_block: "snd (attn_block lc self enc z i) = block_res lc self enc z"
  by (simp add: attn_block_def block_res_def snd_bind_t snd_reduce_t [abs_def])

lemma snd_call:
  "snd (call lc self x) =
     bind_res (lc (latent self) [x]) (\<lambda>z0.
     bind_res (lc (fourier_enc self) [x]) (\<lambda>enc.
     bind_res (reduce_res (\<lambda>z i. block_res lc self enc z) (range_py (num_blocks self)) z0) (\<lambda>z.
     lc (logits self) [z])))"
  by (simp add: call_def snd_bind_t snd_reduce_t snd_attn_block)

subsection \<open>A forward pass over a batch, sample by sample\<close>

lemma mapM_res_Cons_iff:
  "mapM_res g (x # xs) = Inr ys \<longleftrightarrow>
     (\<exists>y ys'. ys = y # ys' \<and> g x = Inr y \<and> mapM_res g xs = Inr ys')"
  by (cases "g x"; cases "mapM_res g xs") auto

declare mapM_res.simps(2) [simp del]

lemma batched1_Nil: "batched f ob [[]] = Inr []" by simp
lemma batched2_Nil: "batched f ob [[], []] = Inr []" by simp

lemma batched1_Cons:
  "batched f ob [x # xs] = Inr ys \<longleftrightarrow>
     (\<exists>y ys'. ys = y # ys' \<and> f ob [x] = Inr y \<and> batched f ob [xs] = Inr ys')"
  by (simp add: mapM_res_Cons_iff)

lemma batched2_Cons:
  "batched f ob [z # zs, e # es] = Inr ys \<longleftrightarrow>
     (\<exists>y ys'. ys = y # ys' \<and> f ob [z, e] = Inr y \<and> batched f ob [zs, es] = Inr ys')"
  by (auto simp: mapM_res_Cons_iff)

declare batched.simps [simp del]

lemma selfs_batched_Nil:
  "reduce_res (\<lambda>z a. batched f a [z]) as [] = Inr []"
  by (induction as) (simp_all add: bind_res_def batched1_Nil)

lemma selfs_batched_Cons:
  "reduce_res (\<lambda>z a. batched f a [z]) as (z # zs) = Inr ys \<longleftrightarrow>
     (\<exists>y ys'. ys = y # ys' \<and> reduce_res (\<lambda>z a. f a [z]) as z = Inr y
        \<and> reduce_res (\<lambda>z a. batched f a [z]) as zs = Inr ys')"
proof (induction as arbitrary: z zs ys)
  case Nil
  show ?case by auto
next
  case (Cons a as)
  show ?case
    by (auto simp: bind_res_Inr_iff batched1_Cons Cons.IH)
qed

lemma block_batched_Nil: "block_res (batched f) self [] [] = Inr []"
  by (simp add: block_res_def bind_res_def selfs_batched_Nil batched2_Nil)

lemma block_batched_Cons:
  "block_res (batched f) self (e # es) (z # zs) = Inr ys \<longleftrightarrow>
     (\<exists>y ys'. ys = y # ys' \<and> block_res f self e z = Inr y
        \<and> block_res (batched f) self es zs = Inr ys')"
  by (auto simp: block_res_def bind_res_Inr_iff batched2_Cons selfs_batched_Cons)

lemma blocks_batched_Nil:
  "reduce_res (\<lambda>z i. block_res (batched f) self [] z) is [] = Inr []"
  by (induction "is") (simp_all add: bind_res_def block_batched_Nil)

lemma blocks_batched_Cons:
  "reduce_res (\<lambda>z i. block_res (batched f) self (e # es) z) is (z # zs) = Inr ys \<longleftrightarrow>
     (\<exists>y ys'. ys = y # ys' \<and> reduce_res (\<lambda>z i. block_res f self e z) is z = Inr y
        \<and> reduce_res (\<lambda>z i. block_res (batched f) self es z) is zs = Inr ys')"
proof (induction "is" arbitrary: z zs ys)
  case Nil
  show ?case by auto
next
  case (Cons i "is")
  show ?case
    by (auto simp: bind_res_Inr_iff block_batched_Cons Cons.IH)
qed

lemma call_batched_Nil: "snd (call (batched f) self []) = Inr []"
  by (simp add: snd_call bind_res_def blocks_batched_Nil batched1_Nil)

lemma call_batched_Cons:
  "snd (call (batched f) self (x # xs)) = Inr ys \<longleftrightarrow>
     (\<exists>y ys'. ys = y # ys' \<and> snd (call f self x) = Inr y
        \<and> snd (call (batched f) self xs) = Inr ys')"
  by (auto simp: snd_call bind_res_Inr_iff batched1_Cons blocks_batched_Cons)


lemma example_init:
  "Perceiver_init construct_spec 0 2 1 1 1 1 1 0 2 = Inr (example_model, 5)"
  by (simp add: Perceiver_init_def new_layer_def construct_spec_def range_py_def example_model_def)

lemma fourier0: "fourier_encode 0 img = concat img"
  unfolding fourier_encode_def axis_features_def
  by (simp add: case_prod_unfold map_snd_enumerate cong: map_cong)

lemma attention_example:
  "attention example_attn [[u]] [[v]] = Inr [[2 * v + u]]"
  by (simp add: example_attn_def attention_def is_mat_def attn_shapes_ok_def head_out_def
      vadd_def dot_def)

lemma example_heads: "length (w_query example_attn) = 1"
  by (simp add: example_attn_def)

lemma example_latent:
  "sample_call example_weights \<lparr>addr = a, cfg = Latent 1 1\<rparr> [Image x] = Inr (Array [[1]])"
  by (simp add: sample_call_def example_weights_def is_mat_def)

lemma example_fourier:
  "sample_call example_weights \<lparr>addr = a, cfg = FourierPositionEmbedding 0\<rparr> [Image x]
     = Inr (Array (concat x))"
  by (simp add: sample_call_def fourier0)

lemma example_cross:
  "sample_call example_weights \<lparr>addr = a, cfg = CrossAttention 1\<rparr> [Array [[u]], Array [[v]]]
     = Inr (Array [[2 * v + u]])"
  by (simp add: sample_call_def example_weights_def attention_example example_heads)

lemma example_self:
  "sample_call example_weights \<lparr>addr = a, cfg = SelfAttention 1\<rparr> [Array [[u]]]
     = Inr (Array [[3 * u]])"
  by (simp add: sample_call_def example_weights_def attention_example example_heads)

lemma example_decoder:
  "sample_call example_weights \<lparr>addr = a, cfg = ClassificationDecoder 2\<rparr> [Array [[u]]]
     = Inr (Vector [u, 2 * u])"
  by (simp add: sample_call_def example_weights_def decode_def is_mat_def mean_rows_def vadd_def
      numeral_2_eq_2)

lemma range_py_2: "range_py 2 = [0, 1]"
  by (simp add: range_py_def upt_rec)

lemmas example_layers =
  example_latent example_fourier example_cross example_self example_decoder

lemma example_sample:
  "snd (call (sample_call example_weights) example_model (Image [[[v]]]))
     = Inr (Vector [9 + 24 * v, 18 + 48 * v])"
  by (simp add: snd_call example_model_def block_res_def bind_res_def range_py_2 example_layers
      algebra_simps)


subsection \<open>Flipping twice\<close>

lemma zero_sized_map_rev [simp]: "zero_sized (map rev px) \<longleftrightarrow> zero_sized px"
  by (auto simp: zero_sized_def list_ex_iff)

lemma map_rev_map_rev [simp]: "map rev (map rev px) = px"
  by (simp add: o_def)

lemma flip_binary_twice:
  fixes l :: "'l::{zero,one,minus} list"
  assumes "(1::'l) - 0 = 1" and "(1::'l) - 1 = 0" and "\<forall>x \<in> set l. x = 0 \<or> x = 1"
  shows "map (\<lambda>x. 1 - x) (map (\<lambda>x. 1 - x) l) = l"
proof -
  have "1 - (1 - x) = x" if "x \<in> set l" for x
    using that assms by auto
  then show ?thesis
    by (simp add: o_def map_idI)
qed

text \<open>
  C10, as amended. In an arithmetic where \<open>1 - 0 = 1\<close> and \<open>1 - 1 = 0\<close> (that
  of int64 and that of float32), for every image none of whose three dimensions is
  zero and every binary label (every entry 0 or 1), applying \<open>hflip\<close> to the result
  of \<open>hflip\<close> returns the original image and label. On an image with a zero-sized
  dimension \<open>hflip\<close> raises the ValueError of \<^verbatim>\<open>tf.image.flip_left_right\<close>.
\<close>

theorem hflip_twice:
  fixes l :: "'l::{zero,one,minus} list"
  assumes "(1::'l) - 0 = 1" and "(1::'l) - 1 = 0"
  shows "(\<not> zero_sized px \<and> (\<forall>x \<in> set l. x = 0 \<or> x = 1) \<longrightarrow>
            bind_res (hflip (Rank3 px) l) (\<lambda>(img, l'). hflip img l') = Inr (Rank3 px, l))
    \<and> (zero_sized px \<longrightarrow>
            hflip (Rank3 px) l = Inl (ValueError ''inner 3 dims of image.shape must be > 0''))"
  using flip_binary_twice [OF assms, of l]
  by (simp add: hflip_def bind_res_def flip_left_right_def)

theorem hflip_twice_witness:
  "(1 :: 64 word) - 0 = 1 \<and> (1 :: 64 word) - 1 = 0
   \<and> \<not> zero_sized [[[1, 2], [3, 4 :: real]]]
   \<and> hflip (Rank3 [[[1, 2], [3, 4 :: real]]]) [1 :: 64 word]
       = Inr (Rank3 [[[3, 4], [1, 2]]], [0])
   \<and> bind_res (hflip (Rank3 [[[1, 2], [3, 4 :: real]]]) [1 :: 64 word])
        (\<lambda>(img, l'). hflip img l') = Inr (Rank3 [[[1, 2], [3, 4]]], [1])"
proof -
  have z: "\<not> zero_sized [[[1, 2], [3, 4 :: real]]]"
    by (simp add: zero_sized_def)
  have f: "hflip (Rank3 [[[1, 2], [3, 4 :: real]]]) [1 :: 64 word]
       = Inr (Rank3 [[[3, 4], [1, 2]]], [0])"
    by (simp add: hflip_def flip_left_right_def z)
  have a: "(1 :: 64 word) - 0 = 1" and b: "(1 :: 64 word) - 1 = 0"
    by simp_all
  from hflip_twice [OF a b, of "[[[1, 2], [3, 4 :: real]]]" "[1]"] z a b f
  show ?thesis by simp
qed

text \<open>
  The claim C10 as stated fails: an image of height 2 and width 0 is a tensor of rank 3,
  and \<open>hflip\<close> raises on it.
\<close>

theorem hflip_twice_counterexample:
  "hflip (Rank3 ([[], []] :: real list list list)) [1 :: 64 word]
     = Inl (ValueError ''inner 3 dims of image.shape must be > 0'')"
  by (simp add: hflip_def flip_left_right_def zero_sized_def)

subsection \<open>A model of no blocks\<close>

text \<open>
  C9. For a model with \<open>num_blocks = 0\<close> the forward pass calls the latent layer, the
  positional encoder and the decoder and nothing else: no cross-attention and no
  self-attention is applied. Whenever it returns logits, they are the decoder applied
  to the initial latent array, and replacing the model's cross- and self-attention
  layers by any others changes neither the result nor the calls made.
\<close>

theorem zero_blocks_forward:
  assumes "num_blocks self = 0"
  shows "call lc self x =
           bind_t (invoke lc (latent self) [x]) (\<lambda>z0.
           bind_t (invoke lc (fourier_enc self) [x]) (\<lambda>enc.
           invoke lc (logits self) [z0]))
         \<and> (\<forall>y. snd (call lc self x) = Inr y \<longrightarrow>
               bind_res (lc (latent self) [x]) (\<lambda>z0. lc (logits self) [z0]) = Inr y)
         \<and> call lc (self\<lparr>cross_attention := ca, self_attentions := sas\<rparr>) x = call lc self x"
proof -
  have eq: "call lc s x =
           bind_t (invoke lc (latent s) [x]) (\<lambda>z0.
           bind_t (invoke lc (fourier_enc s) [x]) (\<lambda>enc.
           invoke lc (logits s) [z0]))" if "num_blocks s = 0" for s
    using that by (simp add: call_def range_py_def)
  have "bind_res (lc (latent self) [x]) (\<lambda>z0. lc (logits self) [z0]) = Inr y"
    if "snd (call lc self x) = Inr y" for y
    using that unfolding eq [OF assms]
    by (auto simp: snd_bind_t bind_res_Inr_iff)
  moreover have "call lc (self\<lparr>cross_attention := ca, self_attentions := sas\<rparr>) x = call lc self x"
    using assms by (simp add: eq)
  ultimately show ?thesis using eq [OF assms] by blast
qed

theorem zero_blocks_forward_witness:
  "num_blocks example_model0 = 0
   \<and> snd (call (sample_call example_weights) example_model0 (Image [[[3]]])) = Inr (Vector [1, 2])
   \<and> bind_res (sample_call example_weights (latent example_model0) [Image [[[3]]]])
        (\<lambda>z0. sample_call example_weights (logits example_model0) [z0]) = Inr (Vector [1, 2])
   \<and> call (sample_call example_weights)
        (example_model0\<lparr>cross_attention := logits example_model0, self_attentions := []\<rparr>)
        (Image [[[3]]])
      = call (sample_call example_weights) example_model0 (Image [[[3]]])"
proof -
  have n: "num_blocks example_model0 = 0"
    by (simp add: example_model0_def)
  have r: "snd (call (sample_call example_weights) example_model0 (Image [[[3]]])) = Inr (Vector [1, 2])"
    by (simp add: snd_call example_model0_def example_model_def range_py_def bind_res_def
        example_layers)
  show ?thesis
    using n r zero_blocks_forward [OF n, where lc = "sample_call example_weights"
        and x = "Image [[[3]]]" and ca = "logits example_model0" and sas = "[]"]
    by simp
qed

subsection \<open>The structure of the forward pass\<close>

text \<open>
  C2. For every input, every model and whatever the layers compute, \<open>call\<close> is
  the forward pass of the specification: the latent array and the positional encoding
  of the input are computed once each, the latent array is folded through
  \<open>num_blocks\<close> outer iterations, each one cross-attention of the latent array
  against the encoded input followed by the self-attention layers once each in their
  order of construction, and the decoder is applied to the result. A pass that returns
  logits has made exactly the calls \<open>forward_calls\<close>, in this order.
\<close>

theorem forward_pass_structure:
  "call lc self x = spec_forward lc self x
   \<and> (\<forall>y. snd (call lc self x) = Inr y \<longrightarrow> fst (call lc self x) = forward_calls self)"
  using spec_forward_trace [of lc self x]
  by (simp add: call_refines_spec_forward)

lemma example_call:
  "snd (call (sample_call example_weights) example_model (Image [[[3]]])) = Inr (Vector [81, 162])"
  by (simp add: example_sample)

theorem forward_pass_structure_witness:
  "snd (call (sample_call example_weights) example_model (Image [[[3]]])) = Inr (Vector [81, 162])
   \<and> fst (call (sample_call example_weights) example_model (Image [[[3]]]))
       = [latent example_model, fourier_enc example_model,
          cross_attention example_model, \<lparr>addr = 3, cfg = SelfAttention 1\<rparr>,
          cross_attention example_model, \<lparr>addr = 3, cfg = SelfAttention 1\<rparr>,
          logits example_model]"
proof -
  have "fst (call (sample_call example_weights) example_model (Image [[[3]]]))
      = forward_calls example_model"
    using forward_pass_structure [of "sample_call example_weights" example_model "Image [[[3]]]"]
      example_call by blast
  moreover have "forward_calls example_model
      = [latent example_model, fourier_enc example_model,
          cross_attention example_model, \<lparr>addr = 3, cfg = SelfAttention 1\<rparr>,
          cross_attention example_model, \<lparr>addr = 3, cfg = SelfAttention 1\<rparr>,
          logits example_model]"
    by (simp add: forward_calls_def example_model_def numeral_2_eq_2)
  ultimately show ?thesis using example_call by simp
qed


subsection \<open>Construction\<close>

lemma new_layers_eq:
  "new_layers ctor c xs n =
     (case ctor c of
        Some e \<Rightarrow> if xs = [] then Inr ([], n) else Inl e
      | None \<Rightarrow> Inr (map (\<lambda>i. \<lparr>addr = n + i, cfg = c\<rparr>) [0..<length xs], n + length xs))"
proof (induction xs arbitrary: n)
  case Nil
  show ?case by (simp split: option.splits)
next
  case (Cons x xs)
  have "map (\<lambda>i. \<lparr>addr = n + i, cfg = c\<rparr>) [0..<Suc (length xs)]
      = \<lparr>addr = n, cfg = c\<rparr> # map (\<lambda>i. \<lparr>addr = Suc n + i, cfg = c\<rparr>) [0..<length xs]"
    by (simp add: upt_conv_Cons map_Suc_upt [symmetric] del: upt_Suc)
  then show ?case
    by (simp add: Cons.IH new_layer_def split: option.splits)
qed

lemma Perceiver_init_Inr:
  assumes "Perceiver_init ctor n0 B S ch sh ld lc K nc = Inr (m, n1)"
  shows "m = constructed n0 B S ch sh ld lc K nc" and "n1 = n0 + 4 + nat S"
  using assms
  by (auto simp: Perceiver_init_def new_layer_def new_layers_eq constructed_def
      Suc3_eq_add_3 add.commute
      split: option.splits if_splits)


lemma Perceiver_init_eq:
  "Perceiver_init ctor n0 B S ch sh ld lc K nc =
     (case ctor (Latent ld lc) of Some e \<Rightarrow> Inl e | None \<Rightarrow>
     (case ctor (FourierPositionEmbedding K) of Some e \<Rightarrow> Inl e | None \<Rightarrow>
     (case ctor (CrossAttention ch) of Some e \<Rightarrow> Inl e | None \<Rightarrow>
     (case (if S \<le> 0 then None else ctor (SelfAttention sh)) of Some e \<Rightarrow> Inl e | None \<Rightarrow>
     (case ctor (ClassificationDecoder nc) of Some e \<Rightarrow> Inl e | None \<Rightarrow>
        Inr (constructed n0 B S ch sh ld lc K nc, n0 + 4 + nat S))))))"
  by (auto simp: Perceiver_init_def new_layer_def new_layers_eq constructed_def
      Suc3_eq_add_3 add.commute split: option.splits)

lemma attention_layers_constructed:
  "attention_layers (constructed n0 B S ch sh ld lc K nc) =
     \<lparr>addr = n0 + 2, cfg = CrossAttention ch\<rparr>
     # map (\<lambda>i. \<lparr>addr = n0 + 3 + i, cfg = SelfAttention sh\<rparr>) [0..<nat S]"
  by (simp add: attention_layers_def constructed_def)

lemma addr_attention_layers_constructed:
  "map addr (attention_layers (constructed n0 B S ch sh ld lc K nc)) = [n0 + 2..<n0 + 3 + nat S]"
proof -
  have "map addr (map (\<lambda>i. \<lparr>addr = n0 + 3 + i, cfg = SelfAttention sh\<rparr>) [0..<nat S])
      = map (\<lambda>i. i + (n0 + 3)) [0..<nat S]"
    by (simp add: o_def add.commute)
  also have "\<dots> = [n0 + 3..<n0 + 3 + nat S]"
    by (simp add: map_add_upt add.commute)
  finally have selfs: "map addr (map (\<lambda>i. \<lparr>addr = n0 + 3 + i, cfg = SelfAttention sh\<rparr>) [0..<nat S])
      = [n0 + 3..<n0 + 3 + nat S]" .
  have "[n0 + 2..<n0 + 3 + nat S] = (n0 + 2) # [Suc (n0 + 2)..<n0 + 3 + nat S]"
    by (rule upt_conv_Cons) simp
  moreover have "Suc (n0 + 2) = n0 + 3"
    by simp
  ultimately have "[n0 + 2..<n0 + 3 + nat S] = (n0 + 2) # [n0 + 3..<n0 + 3 + nat S]"
    by (simp only:)
  then show ?thesis
    by (simp only: attention_layers_constructed list.map selfs layer_obj.simps)
qed

lemma distinct_attention_layers_constructed:
  "distinct (attention_layers (constructed n0 B S ch sh ld lc K nc))"
proof -
  have "distinct (map addr (attention_layers (constructed n0 B S ch sh ld lc K nc)))"
    by (simp only: addr_attention_layers_constructed distinct_upt)
  then show ?thesis by (simp only: distinct_map)
qed

lemma attention_param_count_constructed:
  "attention_param_count psize (constructed n0 B S ch sh ld lc K nc)
     = psize (CrossAttention ch) + nat S * psize (SelfAttention sh)"
proof -
  have "attention_param_count psize (constructed n0 B S ch sh ld lc K nc)
      = sum_list (map (\<lambda>ob. psize (cfg ob)) (attention_layers (constructed n0 B S ch sh ld lc K nc)))"
    by (simp only: attention_param_count_def
        distinct_remdups_id [OF distinct_attention_layers_constructed])
  also have "\<dots> = psize (CrossAttention ch) + nat S * psize (SelfAttention sh)"
    by (simp add: attention_layers_constructed o_def sum_list_triv)
  finally show ?thesis .
qed

text \<open>
  C1. A model constructed with \<open>num_blocks = B\<close> and
  \<open>num_self_attends_per_block = S\<close> holds one cross-attention object and \<open>S\<close>
  self-attention objects (none when \<open>S\<close> is negative), at pairwise different
  addresses: one cross-attention parameter set and \<open>S\<close> self-attention parameter
  sets; the constructor allocates four more objects and nothing else. Every forward
  pass that returns has applied exactly these objects, the same in each of the \<open>B\<close>
  outer iterations. The attention parameter count is that of one cross-attention
  object plus \<open>S\<close> self-attention objects, and a model constructed with another
  number of blocks and the same other arguments has the same count.
\<close>

theorem weight_sharing:
  assumes "Perceiver_init ctor n0 B S ch sh ld lc K nc = Inr (m, n1)"
  shows "cfg (cross_attention m) = CrossAttention ch
    \<and> length (self_attentions m) = nat S
    \<and> (\<forall>ob \<in> set (self_attentions m). cfg ob = SelfAttention sh)
    \<and> distinct (map addr (attention_layers m))
    \<and> n1 = n0 + 4 + nat S
    \<and> (\<forall>x y. snd (call lcall m x) = Inr y \<longrightarrow>
          fst (call lcall m x)
            = [latent m, fourier_enc m] @ concat (replicate (nat B) (attention_layers m))
              @ [logits m])
    \<and> attention_param_count psize m = psize (CrossAttention ch) + nat S * psize (SelfAttention sh)
    \<and> (\<forall>B' n0' m' n1'. Perceiver_init ctor n0' B' S ch sh ld lc K nc = Inr (m', n1') \<longrightarrow>
          attention_param_count psize m' = attention_param_count psize m)"
proof -
  have m: "m = constructed n0 B S ch sh ld lc K nc" and n1: "n1 = n0 + 4 + nat S"
    using Perceiver_init_Inr [OF assms] by simp_all
  have nb: "num_blocks m = B"
    by (simp add: m constructed_def)
  have calls: "fst (call lcall m x)
            = [latent m, fourier_enc m] @ concat (replicate (nat B) (attention_layers m))
              @ [logits m]" if "snd (call lcall m x) = Inr y" for x y
    using spec_forward_trace [of lcall m x y] that
    by (simp add: call_refines_spec_forward forward_calls_def attention_layers_def nb)
  have count: "attention_param_count psize m' = attention_param_count psize m"
    if "Perceiver_init ctor n0' B' S ch sh ld lc K nc = Inr (m', n1')" for B' n0' m' n1'
    using Perceiver_init_Inr(1) [OF that]
    by (simp add: m attention_param_count_constructed)
  have "cfg (cross_attention m) = CrossAttention ch"
    by (simp add: m constructed_def)
  moreover have "length (self_attentions m) = nat S"
    by (simp add: m constructed_def)
  moreover have "\<forall>ob \<in> set (self_attentions m). cfg ob = SelfAttention sh"
    by (auto simp: m constructed_def)
  moreover have "distinct (map addr (attention_layers m))"
    by (simp only: m addr_attention_layers_constructed distinct_upt)
  moreover have "attention_param_count psize m
      = psize (CrossAttention ch) + nat S * psize (SelfAttention sh)"
    by (simp only: m attention_param_count_constructed)
  ultimately show ?thesis
    using n1 calls count by blast
qed

theorem weight_sharing_witness:
  "Perceiver_init construct_spec 0 2 1 1 1 1 1 0 2 = Inr (example_model, 5)
   \<and> Perceiver_init construct_spec 0 8 1 1 1 1 1 0 2 = Inr (example_model\<lparr>num_blocks := 8\<rparr>, 5)
   \<and> length (self_attentions example_model) = 1
   \<and> attention_param_count (\<lambda>c. 1) example_model = 2
   \<and> attention_param_count (\<lambda>c. 1) (example_model\<lparr>num_blocks := 8\<rparr>) = 2
   \<and> snd (call (sample_call example_weights) example_model (Image [[[3]]])) = Inr (Vector [81, 162])
   \<and> fst (call (sample_call example_weights) example_model (Image [[[3]]]))
       = [latent example_model, fourier_enc example_model]
         @ concat (replicate 2 (attention_layers example_model)) @ [logits example_model]"
proof -
  have i8: "Perceiver_init construct_spec 0 8 1 1 1 1 1 0 2
      = Inr (example_model\<lparr>num_blocks := 8\<rparr>, 5)"
    by (simp add: Perceiver_init_eq construct_spec_def constructed_def example_model_def)
  note ws = weight_sharing [OF example_init, where psize = "\<lambda>c. 1"
      and lcall = "sample_call example_weights"]
  have len: "length (self_attentions example_model) = 1"
    and c2: "attention_param_count (\<lambda>c. 1) example_model = 2"
    using ws by simp_all
  have "\<forall>B' n0' m' n1'. Perceiver_init construct_spec n0' B' 1 1 1 1 1 0 2 = Inr (m', n1') \<longrightarrow>
      attention_param_count (\<lambda>c. 1) m' = attention_param_count (\<lambda>c. 1) example_model"
    using ws by blast
  from this [rule_format, OF i8] c2
  have c8: "attention_param_count (\<lambda>c. 1) (example_model\<lparr>num_blocks := 8\<rparr>) = 2"
    by simp
  have "\<forall>x y. snd (call (sample_call example_weights) example_model x) = Inr y \<longrightarrow>
      fst (call (sample_call example_weights) example_model x)
        = [latent example_model, fourier_enc example_model]
          @ concat (replicate (nat 2) (attention_layers example_model)) @ [logits example_model]"
    using ws by blast
  from this [rule_format, OF example_call]
  have tr: "fst (call (sample_call example_weights) example_model (Image [[[3]]]))
       = [latent example_model, fourier_enc example_model]
         @ concat (replicate 2 (attention_layers example_model)) @ [logits example_model]"
    by simp
  show ?thesis
    using example_init i8 len c2 c8 example_call tr by blast
qed


subsection \<open>Degenerate configurations\<close>

text \<open>
  C5, as amended. With layer constructors that reject zero heads, a zero latent
  dimension and zero classes, constructing a Perceiver with \<open>latent_dim = 0\<close>, with
  \<open>num_cross_heads = 0\<close>, with \<open>num_classes = 0\<close>, or with
  \<open>num_self_attend_heads = 0\<close> and at least one self-attention layer per block is
  rejected: the constructor fails and returns no model. With
  \<open>num_self_attends_per_block \<le> 0\<close> no self-attention layer is constructed and the
  number of self-attention heads has no effect on the construction, whatever the layer
  constructors do.
\<close>

theorem degenerate_configuration:
  assumes "\<And>c. ctor (Latent 0 c) \<noteq> None" and "ctor (CrossAttention 0) \<noteq> None"
    and "ctor (SelfAttention 0) \<noteq> None" and "ctor (ClassificationDecoder 0) \<noteq> None"
  shows "(ld = 0 \<or> ch = 0 \<or> (sh = 0 \<and> 0 < S) \<or> nc = 0 \<longrightarrow>
            isl (Perceiver_init ctor n B S ch sh ld lc K nc))
    \<and> (S \<le> 0 \<longrightarrow> Perceiver_init ctor n B S ch sh ld lc K nc
                  = Perceiver_init ctor n B S ch sh' ld lc K nc)"
  using assms(1) [of lc] assms(2-4)
  by (auto simp: Perceiver_init_eq constructed_def split: option.splits)

theorem degenerate_configuration_witness:
  "(\<forall>c. construct_spec (Latent 0 c) \<noteq> None) \<and> construct_spec (CrossAttention 0) \<noteq> None
   \<and> construct_spec (SelfAttention 0) \<noteq> None \<and> construct_spec (ClassificationDecoder 0) \<noteq> None
   \<and> isl (Perceiver_init construct_spec 0 8 6 0 8 512 1024 64 2)
   \<and> isl (Perceiver_init construct_spec 0 8 6 1 0 512 1024 64 2)
   \<and> isl (Perceiver_init construct_spec 0 8 6 1 8 0 1024 64 2)
   \<and> isl (Perceiver_init construct_spec 0 8 6 1 8 512 1024 64 0)
   \<and> Perceiver_init construct_spec 0 8 0 1 0 512 1024 64 2
       = Perceiver_init construct_spec 0 8 0 1 8 512 1024 64 2"
proof -
  have r: "construct_spec (Latent 0 c) \<noteq> None" "construct_spec (CrossAttention 0) \<noteq> None"
    "construct_spec (SelfAttention 0) \<noteq> None" "construct_spec (ClassificationDecoder 0) \<noteq> None"
    for c
    by (simp_all add: construct_spec_def)
  note d = degenerate_configuration [of construct_spec, OF r]
  from r
    d [where ld = 512 and ch = 0 and sh = 8 and S = 6 and nc = 2 and n = 0 and B = 8
        and lc = 1024 and K = 64]
    d [where ld = 512 and ch = 1 and sh = 0 and S = 6 and nc = 2 and n = 0 and B = 8
        and lc = 1024 and K = 64]
    d [where ld = 0 and ch = 1 and sh = 8 and S = 6 and nc = 2 and n = 0 and B = 8
        and lc = 1024 and K = 64]
    d [where ld = 512 and ch = 1 and sh = 8 and S = 6 and nc = 0 and n = 0 and B = 8
        and lc = 1024 and K = 64]
    d [where S = 0 and sh = 0 and sh' = 8 and ld = 512 and ch = 1 and nc = 2 and n = 0
        and B = 8 and lc = 1024 and K = 64]
  show ?thesis by simp
qed

text \<open>
  The claim C5 as stated fails: a configuration with zero self-attention heads and no
  self-attention layer is accepted, the constructor returns a model.
\<close>

theorem degenerate_configuration_counterexample:
  "Perceiver_init construct_spec 0 8 0 1 0 512 1024 64 2
     = Inr (\<lparr>num_blocks = 8,
             latent = \<lparr>addr = 0, cfg = Latent 512 1024\<rparr>,
             fourier_enc = \<lparr>addr = 1, cfg = FourierPositionEmbedding 64\<rparr>,
             cross_attention = \<lparr>addr = 2, cfg = CrossAttention 1\<rparr>,
             self_attentions = [],
             logits = \<lparr>addr = 3, cfg = ClassificationDecoder 2\<rparr>\<rparr>, 4)"
  by (simp add: Perceiver_init_def new_layer_def construct_spec_def range_py_def)

subsection \<open>The experiment\<close>

lemma preprocess_rejects_batch_size:
  "preprocess body pos ((''batch_size'', v) # kws)
     = Inl (TypeError ''got an unexpected keyword argument batch_size'')"
  by (simp add: preprocess_def bind_args_def preprocess_params_def)

text \<open>
  C4, as amended. For every options value, \<open>run_experiment\<close> raises and constructs
  no model. If the dataset library raises, its exception is the one raised. Once it has
  returned the splits (whatever they are), the call of \<open>preprocess\<close> raises a
  TypeError: the keyword \<^verbatim>\<open>batch_size\<close> is no parameter of \<open>preprocess\<close>, whose
  batch-size parameters are \<^verbatim>\<open>train_batch_size\<close> and \<^verbatim>\<open>eval_batch_size\<close>.
  Neither the body of \<open>preprocess\<close> nor the model's constructor is reached.
\<close>

theorem run_experiment_type_error:
  "(\<forall>splits num_classes. tfds_load (data_dir opts) = Inr (splits, num_classes) \<longrightarrow>
       run_experiment tfds_load body train_eval ctor n0 opts
         = (Inl (TypeError ''got an unexpected keyword argument batch_size''), None))
   \<and> (\<forall>e. tfds_load (data_dir opts) = Inl e \<longrightarrow>
         run_experiment tfds_load body train_eval ctor n0 opts = (Inl e, None))
   \<and> isl (fst (run_experiment tfds_load body train_eval ctor n0 opts))
   \<and> snd (run_experiment tfds_load body train_eval ctor n0 opts) = None
   \<and> ''batch_size'' \<notin> set (map fst preprocess_params)
   \<and> ''train_batch_size'' \<in> set (map fst preprocess_params)
   \<and> ''eval_batch_size'' \<in> set (map fst preprocess_params)"
  by (auto simp: run_experiment_def preprocess_rejects_batch_size preprocess_params_def
      split: sum.splits)

lemma preprocess_binds:
  "preprocess body [tr, va, te] [(''train_batch_size'', b), (''num_classes'', n), (''image_dims'', d)]
     = body [(''train'', tr), (''validation'', va), (''test'', te), (''num_classes'', n),
             (''image_dims'', d), (''hflip_concat'', PyBool True), (''train_batch_size'', b),
             (''eval_batch_size'', PyInt 16)]"
  by (simp add: preprocess_def bind_args_def preprocess_params_def)

theorem run_experiment_type_error_witness:
  "example_load (data_dir example_opts) = Inr ([PyDataset 0, PyDataset 1, PyDataset 2], 2)
   \<and> run_experiment example_load (\<lambda>env. Inr [PyDataset 3, PyDataset 4, PyDataset 5])
        (\<lambda>p tr va te opts. Inr ()) construct_spec 0 example_opts
      = (Inl (TypeError ''got an unexpected keyword argument batch_size''), None)"
proof -
  have l: "example_load (data_dir example_opts) = Inr ([PyDataset 0, PyDataset 1, PyDataset 2], 2)"
    by (simp add: example_load_def example_opts_def)
  show ?thesis
    using l run_experiment_type_error [of example_load example_opts
        "\<lambda>env. Inr [PyDataset 3, PyDataset 4, PyDataset 5]" "\<lambda>p tr va te opts. Inr ()"
        construct_spec 0]
    by blast
qed

text \<open>
  The claim C4 as stated fails: with a data directory that does not hold the dataset,
  the exception \<open>run_experiment\<close> raises is the dataset library's, not a TypeError.
\<close>

theorem run_experiment_type_error_counterexample:
  "run_experiment example_load (\<lambda>env. Inr [PyDataset 3, PyDataset 4, PyDataset 5])
     (\<lambda>p tr va te opts. Inr ()) construct_spec 0 (example_opts\<lparr>data_dir := ''/nonexistent''\<rparr>)
     = (Inl (ValueError ''DatasetNotFoundError''), None)"
  by (simp add: run_experiment_def example_load_def)

subsection \<open>The Fourier encoder without bands\<close>

text \<open>
  C7. With a band count of 0 the Fourier encoder appends nothing: its output is the
  raw channel values of the positions, flattened row by row, and the layer constructed
  with \<open>num_bands = 0\<close> returns just this array.
\<close>

theorem fourier_no_bands:
  "fourier_encode 0 img = concat img
   \<and> sample_call W \<lparr>addr = a, cfg = FourierPositionEmbedding 0\<rparr> [Image img]
       = Inr (Array (concat img))"
  by (simp add: sample_call_def fourier0)

subsection \<open>Attention with zero weights\<close>

lemma all_zero_replicate: "list_all (\<lambda>x. x = (0::real)) w \<Longrightarrow> w = replicate (length w) 0"
  by (induction w) simp_all

lemma vadd_zero_left: "length r = d \<Longrightarrow> vadd (replicate d 0) r = r"
  by (induction r arbitrary: d) (auto simp: vadd_def)

lemma vec_mat_zero:
  "list_all (list_all (\<lambda>x. x = 0)) W \<Longrightarrow> list_all (\<lambda>r. length r = d) W
     \<Longrightarrow> vec_mat d v W = replicate d 0"
proof (induction d v W rule: vec_mat.induct)
  case (1 d x xs w ws)
  then have w: "w = replicate d 0"
    using all_zero_replicate [of w] by simp
  from 1 have "vec_mat d xs ws = replicate d 0" by simp
  then show ?case
    by (simp add: w vadd_zero_left)
qed simp_all

text \<open>
  C8. An attention primitive whose projection weights are all zero returns its query
  source unchanged whenever it returns, and it returns for every query source and every
  key/value source of at least one row whose shapes fit the shapes of the weights.
\<close>

theorem zero_weights_residual:
  assumes "all_zero P"
  shows "(\<forall>out. attention P q kv = Inr out \<longrightarrow> out = q)
    \<and> (kv \<noteq> [] \<and> is_mat (length q) D q \<and> is_mat (length kv) C kv \<and> attn_shapes_ok P D C
         \<longrightarrow> attention P q kv = Inr q)"
proof -
  have zero: "list_all (list_all (\<lambda>x. x = 0)) (w_out P)"
    using assms by (simp add: all_zero_def)
  have row: "vadd (vec_mat d u (w_out P)) qr = qr"
    if "is_mat n d (w_out P)" "length qr = d" for n d u qr
    using that zero by (simp add: is_mat_def vec_mat_zero vadd_zero_left)
  have res: "map (\<lambda>qr. vadd (vec_mat d (g qr) (w_out P)) qr) qs = qs"
    if "is_mat n d (w_out P)" "is_mat k d qs" for n d k g qs
    using that by (intro map_idI row) (auto simp: is_mat_def list_all_iff)
  have 1: "out = q" if "attention P q kv = Inr out" for out
  proof (cases kv)
    case Nil
    with that show ?thesis by (simp add: attention_def)
  next
    case kv: (Cons kr0 kv')
    show ?thesis
    proof (cases q)
      case Nil
      with that kv show ?thesis by (simp add: attention_def)
    next
      case (Cons qr0 q')
      from that have ok: "is_mat (length q) (length qr0) q"
        and wo: "is_mat (length (w_query P) * head_dim P) (length qr0) (w_out P)"
        by (auto simp: attention_def kv Cons attn_shapes_ok_def simp del: list.map
            split: if_splits)
      from that show ?thesis
        by (auto simp: attention_def kv Cons res [OF wo ok [unfolded Cons]]
            simp del: list.map split: if_splits)
    qed
  qed
  have 2: "attention P q kv = Inr q"
    if kvne: "kv \<noteq> []" and mq: "is_mat (length q) D q" and mkv: "is_mat (length kv) C kv"
      and sh: "attn_shapes_ok P D C"
  proof (cases q)
    case Nil
    with kvne show ?thesis by (cases kv) (simp_all add: attention_def)
  next
    case (Cons qr0 q')
    from kvne obtain kr0 kv' where kv: "kv = kr0 # kv'"
      by (cases kv) auto
    have D: "length qr0 = D" and C: "length kr0 = C"
      using mq mkv by (simp_all add: Cons kv is_mat_def)
    have wo: "is_mat (length (w_query P) * head_dim P) D (w_out P)"
      using sh by (simp add: attn_shapes_ok_def)
    from mq mkv sh show ?thesis
      by (simp add: attention_def kv Cons D C res [OF wo mq [unfolded Cons]]
          del: list.map)
  qed
  from 1 2 show ?thesis by blast
qed

lemma all_zero_zero_attn: "all_zero zero_attn"
  by (simp add: all_zero_def zero_attn_def)

theorem zero_weights_residual_witness:
  "all_zero zero_attn \<and> attention zero_attn [[5], [7]] [[3], [4], [6]] = Inr [[5], [7]]"
proof -
  have "attn_shapes_ok zero_attn 1 1"
    by (simp add: attn_shapes_ok_def zero_attn_def is_mat_def)
  moreover have "is_mat (length [[5], [7 :: real]]) 1 [[5], [7]]"
    and "is_mat (length [[3], [4], [6 :: real]]) 1 [[3], [4], [6]]"
    by (simp_all add: is_mat_def)
  ultimately show ?thesis
    using all_zero_zero_attn
      zero_weights_residual [OF all_zero_zero_attn, of "[[5], [7]]" "[[3], [4], [6]]" 1 1]
    by simp
qed


subsection \<open>Batches\<close>

lemma call_batched_iff:
  "snd (call (batched f) self xs) = Inr ys
     \<longleftrightarrow> list_all2 (\<lambda>x y. snd (call f self x) = Inr y) xs ys"
proof (induction xs arbitrary: ys)
  case Nil
  show ?case by (auto simp: call_batched_Nil)
next
  case (Cons x xs)
  show ?case
    by (auto simp: call_batched_Cons Cons.IH list_all2_Cons1)
qed

text \<open>
  C6. For every model and every batch of two samples, whatever the layers compute on
  a sample: the forward pass over the batch returns logits exactly if the forward
  passes over the two batches of one sample each do, and the logits of the batch are
  then the logits of the first sample followed by the logits of the second.
\<close>

theorem batch_independence:
  "snd (call (batched f) self [x1, x2]) = Inr ys
     \<longleftrightarrow> (\<exists>y1 y2. ys = [y1, y2]
            \<and> snd (call (batched f) self [x1]) = Inr [y1]
            \<and> snd (call (batched f) self [x2]) = Inr [y2])"
  by (auto simp: call_batched_iff list_all2_Cons1)

lemma example_batch:
  "snd (call (batched (sample_call example_weights)) example_model [Image [[[3]]], Image [[[5]]]])
     = Inr [Vector [81, 162], Vector [129, 258]]"
  by (simp add: call_batched_iff example_sample)

theorem batch_independence_witness:
  "snd (call (batched (sample_call example_weights)) example_model [Image [[[3]]], Image [[[5]]]])
     = Inr [Vector [81, 162], Vector [129, 258]]
   \<and> snd (call (batched (sample_call example_weights)) example_model [Image [[[3]]]])
       = Inr [Vector [81, 162]]
   \<and> snd (call (batched (sample_call example_weights)) example_model [Image [[[5]]]])
       = Inr [Vector [129, 258]]"
  using example_batch
    batch_independence [of "sample_call example_weights" example_model
      "Image [[[3]]]" "Image [[[5]]]" "[Vector [81, 162], Vector [129, 258]]"]
  by simp

subsection \<open>The shape of the logits\<close>

lemma length_vadd: "length (vadd a b) = min (length a) (length b)"
  by (simp add: vadd_def)

lemma length_vec_mat: "list_all (\<lambda>r. length r = d) W \<Longrightarrow> length (vec_mat d v W) = d"
  by (induction d v W rule: vec_mat.induct) (simp_all add: length_vadd)

lemma decode_length: "decode n W z = Inr v \<Longrightarrow> length v = n"
  by (auto simp: decode_def is_mat_def length_vec_mat split: list.splits if_splits)

lemma decoder_call_Vector:
  assumes "sample_call W ob args = Inr y" and "cfg ob = ClassificationDecoder n"
  shows "\<exists>v. y = Vector v \<and> length v = nat n"
proof -
  from assms obtain z where "map_sum id Vector (decode (nat n) (decoder_w W (addr ob)) z) = Inr y"
    by (auto simp: sample_call_def split: list.splits sample.splits)
  then obtain v where "decode (nat n) (decoder_w W (addr ob)) z = Inr v" and "y = Vector v"
    by (cases "decode (nat n) (decoder_w W (addr ob)) z") auto
  then show ?thesis
    using decode_length by blast
qed

lemma call_sample_Vector:
  assumes "snd (call (sample_call W) self x) = Inr y" and "cfg (logits self) = ClassificationDecoder n"
  shows "\<exists>v. y = Vector v \<and> length v = nat n"
proof -
  from assms(1) obtain z where "sample_call W (logits self) [z] = Inr y"
    by (auto simp: snd_call bind_res_Inr_iff)
  then show ?thesis
    using assms(2) by (rule decoder_call_Vector)
qed

lemma list_all2_Vector:
  "list_all2 (\<lambda>x y. \<exists>v. y = Vector v \<and> length v = n) xs out
     \<Longrightarrow> \<exists>ys. out = map Vector ys \<and> length ys = length xs \<and> (\<forall>y \<in> set ys. length y = n)"
proof (induction rule: list_all2_induct)
  case Nil
  show ?case by simp
next
  case (Cons x xs y out)
  then obtain v ys where "y = Vector v" "length v = n" "out = map Vector ys"
    "length ys = length xs" "\<forall>y \<in> set ys. length y = n"
    by blast
  then have "y # out = map Vector (v # ys) \<and> length (v # ys) = length (x # xs)
      \<and> (\<forall>y \<in> set (v # ys). length y = n)"
    by simp
  then show ?case by (intro exI [where x = "v # ys"])
qed

lemma forward_shape_if_returns:
  assumes "Perceiver_init ctor n0 B S ch sh ld lc K nc = Inr (m, n1)"
    and "snd (call (layer_call_spec W) m (map Image imgs)) = Inr out"
  shows "\<exists>ys. out = map Vector ys \<and> length ys = length imgs
              \<and> (\<forall>y \<in> set ys. length y = nat nc)"
proof -
  have "cfg (logits m) = ClassificationDecoder nc"
    using Perceiver_init_Inr(1) [OF assms(1)] by (simp add: constructed_def)
  then have "snd (call (sample_call W) m x) = Inr y \<Longrightarrow> \<exists>v. y = Vector v \<and> length v = nat nc"
    for x y
    by (rule call_sample_Vector [rotated])
  moreover have "list_all2 (\<lambda>x y. snd (call (sample_call W) m x) = Inr y) (map Image imgs) out"
    using assms(2) by (simp only: layer_call_spec_def call_batched_iff)
  ultimately have "list_all2 (\<lambda>x y. \<exists>v. y = Vector v \<and> length v = nat nc) (map Image imgs) out"
    by (rule list_all2_mono [rotated])
  from list_all2_Vector [OF this] show ?thesis by simp
qed

lemma length_axis_features: "length (axis_features K n i) = 2 * K"
  by (simp add: axis_features_def length_concat o_def sum_list_triv)

lemma fourier_encode_shape:
  assumes "is_image h w c img"
  shows "is_mat (h * w) (c + 4 * K) (fourier_encode K img)"
proof -
  have rows: "\<forall>row \<in> set img. length row = w \<and> (\<forall>px \<in> set row. length px = c)"
    and h: "length img = h"
    using assms by (auto simp: is_image_def list_all_iff)
  have "length (fourier_encode K img) = (\<Sum>p\<leftarrow>enumerate 0 img. length (snd p))"
    by (simp add: fourier_encode_def length_concat o_def case_prod_unfold)
  also have "\<dots> = (\<Sum>row\<leftarrow>img. length row)"
    by (simp add: map_snd_enumerate flip: map_map [unfolded o_def])
  also have "\<dots> = (\<Sum>row\<leftarrow>img. w)"
    using rows by (intro arg_cong [where f = sum_list] map_cong) auto
  also have "\<dots> = h * w"
    by (simp add: sum_list_triv h)
  finally have len: "length (fourier_encode K img) = h * w" .
  have "length r = c + 4 * K" if "r \<in> set (fourier_encode K img)" for r
  proof -
    from that obtain i j where "i < length img" "j < length (img ! i)"
      and r: "r = img ! i ! j @ axis_features K (length img) i @ axis_features K (length (img ! i)) j"
      by (auto simp: fourier_encode_def in_set_enumerate_eq)
    then have "img ! i \<in> set img" and "img ! i ! j \<in> set (img ! i)"
      by simp_all
    with rows have "length (img ! i ! j) = c"
      by blast
    then show ?thesis
      by (simp add: r length_axis_features)
  qed
  with len show ?thesis
    by (simp add: is_mat_def list_all_iff)
qed

lemma attention_returns:
  assumes "attn_shapes_ok P D C" and "is_mat n D q" and "is_mat k C kv" and "0 < k"
  shows "\<exists>out. attention P q kv = Inr out \<and> is_mat n D out"
proof -
  from assms(3,4) obtain kr0 kv' where kv: "kv = kr0 # kv'" and C: "length kr0 = C"
    by (cases kv) (auto simp: is_mat_def)
  show ?thesis
  proof (cases q)
    case Nil
    with assms(2) show ?thesis by (simp add: attention_def kv is_mat_def)
  next
    case (Cons qr0 q')
    with assms(2) have D: "length qr0 = D" by (simp add: is_mat_def)
    have wo: "list_all (\<lambda>r. length r = D) (w_out P)"
      using assms(1) by (simp add: attn_shapes_ok_def is_mat_def)
    have n: "length q = n" and rows: "\<forall>r \<in> set q. length r = D"
      using assms(2) by (auto simp: is_mat_def list_all_iff)
    let ?F = "\<lambda>qr. vadd (vec_mat D
                 (concat (map (\<lambda>W. head_out (head_dim P) W qr kv)
                            (zip (w_query P) (zip (w_key P) (w_value P)))))
                 (w_out P)) qr"
    have "is_mat (length q) D q" and "is_mat (length kv) C kv"
      using assms(2,3) by (simp_all add: is_mat_def)
    then have "attention P q kv = Inr (map ?F q)"
      using assms(1)
      by (simp add: attention_def kv Cons D C del: list.map)
    moreover have "is_mat n D (map ?F q)"
      using n rows by (simp add: is_mat_def list_all_iff length_vadd length_vec_mat [OF wo])
    ultimately show ?thesis by blast
  qed
qed

lemma decode_returns:
  assumes "is_mat n D z" and "0 < n" and "is_mat D nc W"
  shows "\<exists>v. decode nc W z = Inr v"
proof -
  from assms(1,2) obtain r0 z' where z: "z = r0 # z'" and D: "length r0 = D"
    by (cases z) (auto simp: is_mat_def)
  from assms(1,3) show ?thesis
    by (simp add: decode_def z D is_mat_def)
qed

lemma reduce_res_invariant:
  assumes "\<And>a z. a \<in> set as \<Longrightarrow> I z \<Longrightarrow> \<exists>z'. f z a = Inr z' \<and> I z'"
    and "I z"
  shows "\<exists>z'. reduce_res f as z = Inr z' \<and> I z'"
  using assms
proof (induction as arbitrary: z)
  case Nil
  then show ?case by simp
next
  case (Cons a as)
  from Cons.prems(1) [of a z] Cons.prems(2) obtain z1 where z1: "f z a = Inr z1" "I z1"
    by auto
  from Cons.IH [of z1] Cons.prems(1) z1(2) obtain z' where "reduce_res f as z1 = Inr z'" "I z'"
    by auto
  with z1 show ?case by (simp add: bind_res_def)
qed

lemma sample_forward_returns:
  assumes cfgs: "cfg (latent self) = Latent ld lc"
      "cfg (fourier_enc self) = FourierPositionEmbedding K"
      "cfg (cross_attention self) = CrossAttention ch"
      "\<forall>ob \<in> set (self_attentions self). cfg ob = SelfAttention sh"
      "cfg (logits self) = ClassificationDecoder nc"
    and fit: "weights_fit W self ld lc ch sh nc (c + 4 * nat K)"
    and img: "is_image h w c img" "0 < h * w"
  shows "\<exists>y. snd (call (sample_call W) self (Image img)) = Inr y"
proof -
  define I where "I z \<longleftrightarrow> (\<exists>Z. z = Array Z \<and> is_mat (nat ld) (nat lc) Z)" for z
  define E where "E = fourier_encode (nat K) img"
  have ld: "0 < nat ld"
    using fit by (simp add: weights_fit_def)
  have E: "is_mat (h * w) (c + 4 * nat K) E"
    unfolding E_def using img(1) by (rule fourier_encode_shape)
  have lat: "sample_call W (latent self) [Image img] = Inr (Array (latent_w W (addr (latent self))))"
    and I0: "I (Array (latent_w W (addr (latent self))))"
    using fit by (simp_all add: sample_call_def cfgs weights_fit_def I_def)
  have enc: "sample_call W (fourier_enc self) [Image img] = Inr (Array E)"
    by (simp add: sample_call_def cfgs E_def)
  have cross: "\<exists>z'. sample_call W (cross_attention self) [z, Array E] = Inr z' \<and> I z'"
    if "I z" for z
  proof -
    from that obtain Z where z: "z = Array Z" and Z: "is_mat (nat ld) (nat lc) Z"
      by (auto simp: I_def)
    from fit have "attn_shapes_ok (attn_w W (addr (cross_attention self))) (nat lc) (c + 4 * nat K)"
      by (simp add: weights_fit_def)
    from attention_returns [OF this Z E img(2)] obtain out
      where "attention (attn_w W (addr (cross_attention self))) Z E = Inr out"
        and "is_mat (nat ld) (nat lc) out"
      by blast
    with fit show ?thesis
      by (simp add: sample_call_def cfgs z weights_fit_def I_def)
  qed
  have self: "\<exists>z'. sample_call W a [z] = Inr z' \<and> I z'"
    if "a \<in> set (self_attentions self)" "I z" for a z
  proof -
    from that(2) obtain Z where z: "z = Array Z" and Z: "is_mat (nat ld) (nat lc) Z"
      by (auto simp: I_def)
    from fit that(1) have h: "length (w_query (attn_w W (addr a))) = nat sh"
      and "attn_shapes_ok (attn_w W (addr a)) (nat lc) (nat lc)"
      by (auto simp: weights_fit_def list_all_iff)
    from attention_returns [OF this(2) Z Z ld] obtain out
      where "attention (attn_w W (addr a)) Z Z = Inr out" and "is_mat (nat ld) (nat lc) out"
      by blast
    with h cfgs(4) that(1) show ?thesis
      by (simp add: sample_call_def z I_def)
  qed
  have block: "\<exists>z'. block_res (sample_call W) self (Array E) z = Inr z' \<and> I z'"
    if "I z" for z
  proof -
    from cross [OF that] obtain z1
      where z1: "sample_call W (cross_attention self) [z, Array E] = Inr z1" "I z1"
      by blast
    from reduce_res_invariant [of "self_attentions self" I "\<lambda>z a. sample_call W a [z]", OF self z1(2)]
    show ?thesis
      by (simp add: block_res_def bind_res_def z1(1))
  qed
  from reduce_res_invariant [of "range_py (num_blocks self)" I
      "\<lambda>z i. block_res (sample_call W) self (Array E) z", OF block I0]
  obtain z where z: "reduce_res (\<lambda>z i. block_res (sample_call W) self (Array E) z)
      (range_py (num_blocks self)) (Array (latent_w W (addr (latent self)))) = Inr z" and "I z"
    by blast
  then obtain Z where Z: "z = Array Z" "is_mat (nat ld) (nat lc) Z"
    by (auto simp: I_def)
  from fit have "is_mat (nat lc) (nat nc) (decoder_w W (addr (logits self)))"
    by (simp add: weights_fit_def)
  from decode_returns [OF Z(2) ld this] obtain v
    where "decode (nat nc) (decoder_w W (addr (logits self))) Z = Inr v"
    by blast
  then have "sample_call W (logits self) [z] = Inr (Vector v)"
    by (simp add: sample_call_def cfgs Z(1))
  then show ?thesis
    by (simp add: snd_call bind_res_def lat enc z)
qed

lemma list_all2_total:
  "(\<forall>x \<in> set xs. \<exists>y. P x y) \<Longrightarrow> \<exists>ys. list_all2 P xs ys"
proof (induction xs)
  case Nil
  show ?case by simp
next
  case (Cons x xs)
  then obtain y ys where "P x y" "list_all2 P xs ys"
    by auto
  then have "list_all2 P (x # xs) (y # ys)"
    by simp
  then show ?case by (rule exI)
qed

lemma forward_returns:
  assumes "Perceiver_init ctor n0 B S ch sh ld lc K nc = Inr (m, n1)"
    and "weights_fit W m ld lc ch sh nc (c + 4 * nat K)"
    and "\<forall>img \<in> set imgs. is_image h w c img" and "0 < h * w"
  shows "\<exists>out. snd (call (layer_call_spec W) m (map Image imgs)) = Inr out"
proof -
  have m: "m = constructed n0 B S ch sh ld lc K nc"
    using Perceiver_init_Inr(1) [OF assms(1)] .
  have "\<exists>y. snd (call (sample_call W) m (Image img)) = Inr y" if "img \<in> set imgs" for img
  proof (rule sample_forward_returns [OF _ _ _ _ _ assms(2) _ assms(4)])
    show "is_image h w c img" using assms(3) that by blast
  qed (auto simp: m constructed_def)
  then have "\<forall>x \<in> set (map Image imgs). \<exists>y. snd (call (sample_call W) m x) = Inr y"
    by auto
  from list_all2_total [OF this] show ?thesis
    by (simp add: layer_call_spec_def call_batched_iff)
qed

text \<open>
  C3. For every model the constructor returns and every batch of images (an input of
  shape batch, height, width, channels): whenever the forward pass returns, the result
  is a batch of as many vectors as there are images, each of length \<open>num_classes\<close>,
  an array of shape (batch, num_classes); and the forward pass does return such an
  array when the images are well formed with at least one position and the learned
  parameters have the shapes the configuration asks for.
\<close>

theorem forward_output_shape:
  assumes "Perceiver_init ctor n0 B S ch sh ld lc K nc = Inr (m, n1)"
  shows "(\<forall>out. snd (call (layer_call_spec W) m (map Image imgs)) = Inr out \<longrightarrow>
            (\<exists>ys. out = map Vector ys \<and> length ys = length imgs
                  \<and> (\<forall>y \<in> set ys. length y = nat nc)))
    \<and> (weights_fit W m ld lc ch sh nc (c + 4 * nat K)
         \<and> (\<forall>img \<in> set imgs. is_image h w c img) \<and> 0 < h * w \<longrightarrow>
            (\<exists>ys. snd (call (layer_call_spec W) m (map Image imgs)) = Inr (map Vector ys)
                  \<and> length ys = length imgs \<and> (\<forall>y \<in> set ys. length y = nat nc)))"
proof -
  have 1: "\<exists>ys. out = map Vector ys \<and> length ys = length imgs \<and> (\<forall>y \<in> set ys. length y = nat nc)"
    if "snd (call (layer_call_spec W) m (map Image imgs)) = Inr out" for out
    using assms that by (rule forward_shape_if_returns)
  have "\<exists>ys. snd (call (layer_call_spec W) m (map Image imgs)) = Inr (map Vector ys)
            \<and> length ys = length imgs \<and> (\<forall>y \<in> set ys. length y = nat nc)"
    if "weights_fit W m ld lc ch sh nc (c + 4 * nat K)"
      and "\<forall>img \<in> set imgs. is_image h w c img" and "0 < h * w"
  proof -
    from forward_returns [OF assms that] obtain out
      where out: "snd (call (layer_call_spec W) m (map Image imgs)) = Inr out"
      by blast
    from 1 [OF out] out show ?thesis by auto
  qed
  with 1 show ?thesis by blast
qed

lemma example_weights_fit: "weights_fit example_weights example_model 1 1 1 1 2 (1 + 4 * nat 0)"
  by (simp add: weights_fit_def example_weights_def example_model_def example_attn_def
      attn_shapes_ok_def is_mat_def)

theorem forward_output_shape_witness:
  "Perceiver_init construct_spec 0 2 1 1 1 1 1 0 2 = Inr (example_model, 5)
   \<and> weights_fit example_weights example_model 1 1 1 1 2 (1 + 4 * nat 0)
   \<and> is_image 1 1 1 [[[3]]] \<and> is_image 1 1 1 [[[5]]]
   \<and> snd (call (layer_call_spec example_weights) example_model (map Image [[[[3]]], [[[5]]]]))
       = Inr (map Vector [[81, 162], [129, 258]])
   \<and> (\<exists>ys. snd (call (layer_call_spec example_weights) example_model
                   (map Image [[[[3]]], [[[5]]]])) = Inr (map Vector ys)
            \<and> length ys = length [[[[3 :: real]]], [[[5]]]]
            \<and> (\<forall>y \<in> set ys. length y = nat 2))"
proof -
  have r: "snd (call (layer_call_spec example_weights) example_model (map Image [[[[3]]], [[[5]]]]))
       = Inr (map Vector [[81, 162], [129, 258]])"
    using example_batch by (simp add: layer_call_spec_def)
  have i: "\<forall>img \<in> set [[[[3]]], [[[5 :: real]]]]. is_image 1 1 1 img"
    by (simp add: is_image_def)
  have p: "0 < (1::nat) * 1"
    by simp
  from forward_output_shape [OF example_init, of example_weights "[[[[3]]], [[[5]]]]" 1 1 1]
    example_weights_fit i p
  have "\<exists>ys. snd (call (layer_call_spec example_weights) example_model
                   (map Image [[[[3]]], [[[5]]]])) = Inr (map Vector ys)
            \<and> length ys = length [[[[3 :: real]]], [[[5]]]]
            \<and> (\<forall>y \<in> set ys. length y = nat 2)"
    by blast
  with example_init example_weights_fit i r show ?thesis
    by simp
qed

end
